theory Spec2Isabelle
  imports Main
begin

section \<open>Values, exceptions and the log\<close>

text \<open>
  A row is a Python dict: field names in insertion order, each with a value. A number
  that the table resource delivers is a \<^verbatim>\<open>Decimal\<close> (\<open>Num\<close>); it is kept as the text that
  Python's \<^verbatim>\<open>str\<close> gives for it. \<^verbatim>\<open>add_data\<close> takes any dict, so a cell may also be a
  Python \<^verbatim>\<open>int\<close> or a \<^verbatim>\<open>float\<close>; a float is kept as the text that \<^verbatim>\<open>repr\<close> gives for it.
\<close>

datatype scalar = Str string | Num string | Bool bool | Null | PyInt int | PyFloat string

type_synonym row = "(string \<times> scalar) list"

text \<open>
  A timestamp is the text \<^verbatim>\<open>%Y-%m-%dT%H:%M:%SZ\<close> of a UTC instant. It is kept as the
  number of whole seconds it denotes: the texts, compared as strings, are ordered as the
  seconds are, and \<^verbatim>\<open>timedelta(hours=1)\<close> is 3600 of them.
\<close>

type_synonym timestamp = int

text \<open>
  The exception classes the code tells apart: \<^verbatim>\<open>except (BotoCoreError, ClientError)\<close>
  in the reader, \<^verbatim>\<open>except Exception\<close> everywhere else.
\<close>

datatype exn = BotoCoreError | ClientError | OtherException

fun boto_error :: "exn \<Rightarrow> bool" where
  "boto_error BotoCoreError = True"
| "boto_error ClientError = True"
| "boto_error OtherException = False"

datatype level = INFO | WARNING | ERROR

text \<open>One constructor for each \<^verbatim>\<open>logger\<close> call of the components modelled here.\<close>

datatype message =
    Searching_for_data timestamp timestamp
  | Retrieved_new_items nat
  | Sample_timestamps "scalar list"
  | Error_reading_from_DynamoDB exn
  | Error_searching_for_existing_file string exn
  | Successfully_updated string nat
  | Successfully_uploaded_new string nat
  | Error_uploading_updating string exn
  | Added_items nat nat
  | Generated_CSV nat "string option"
  | Error_generating_CSV exn
  | Reading_new_data
  | No_new_data_found
  | Hour_boundary_reached
  | No_data_for_current_hour
  | Stopping
  | Application_stopped

type_synonym log = "(level \<times> message) list"

text \<open>Truthiness of an optional string, as in \<^verbatim>\<open>if self.folder_id:\<close>.\<close>

fun truthy :: "string option \<Rightarrow> bool" where
  "truthy None = False"
| "truthy (Some s) = (s \<noteq> [])"

section \<open>CSVDataWriter\<close>

record writer =
  path_prefix :: string
  name_prefix :: string
  current_hour_data :: "row list"
  current_hour :: "string option"

text \<open>
  \<^verbatim>\<open>pd.DataFrame(rows).to_csv(index=False)\<close> is a call into a library: a renderer that
  returns the text or raises.
\<close>

type_synonym renderer = "row list \<Rightarrow> exn + string"

text \<open>
  \<^verbatim>\<open>add_data\<close>; \<open>hour_now\<close> is \<^verbatim>\<open>datetime.now().strftime('%Y%m%d_%H')\<close>, read only when
  there are rows.
\<close>

definition add_data :: "string \<Rightarrow> row list \<Rightarrow> writer \<Rightarrow> writer \<times> log" where
  "add_data hour_now data w =
     (if data = [] then (w, [])
      else
        let w1 = (if current_hour w \<noteq> Some hour_now
                  then w\<lparr>current_hour := Some hour_now, current_hour_data := []\<rparr>
                  else w);
            w2 = w1\<lparr>current_hour_data := current_hour_data w1 @ data\<rparr>
        in (w2, [(INFO, Added_items (length data) (length (current_hour_data w2)))]))"

text \<open>Several \<^verbatim>\<open>add_data\<close> calls in a row, each with its own clock reading.\<close>

fun add_all :: "(string \<times> row list) list \<Rightarrow> writer \<Rightarrow> writer" where
  "add_all [] w = w"
| "add_all ((h, data) # rest) w = add_all rest (fst (add_data h data w))"

definition write_hour_data :: "renderer \<Rightarrow> writer \<Rightarrow> string option \<times> writer \<times> log" where
  "write_hour_data to_csv w =
     (if current_hour_data w = [] then (None, w, [])
      else
        (case to_csv (current_hour_data w) of
           Inr csv_content \<Rightarrow>
             (Some csv_content, w,
              [(INFO, Generated_CSV (length (current_hour_data w)) (current_hour w))])
         | Inl e \<Rightarrow> (None, w, [(ERROR, Error_generating_CSV e)])))"

text \<open>\<open>hour_now\<close> is the clock reading of the fallback branch.\<close>

definition get_current_filename :: "string \<Rightarrow> writer \<Rightarrow> string" where
  "get_current_filename hour_now w =
     (if truthy (current_hour w)
      then name_prefix w @ ''_'' @ (case current_hour w of Some h \<Rightarrow> h | None \<Rightarrow> []) @ ''.csv''
      else name_prefix w @ ''_'' @ hour_now @ ''.csv'')"

definition get_current_csv_content :: "renderer \<Rightarrow> writer \<Rightarrow> string option \<times> writer \<times> log" where
  "get_current_csv_content to_csv w = write_hour_data to_csv w"

definition force_write_current_data :: "renderer \<Rightarrow> writer \<Rightarrow> string option \<times> writer \<times> log" where
  "force_write_current_data to_csv w = write_hour_data to_csv w"

section \<open>DynamoDBDataReader\<close>

text \<open>
  The table is outside the program. One \<^verbatim>\<open>table.scan\<close> call sends the two bounds of the
  filter expression \<^verbatim>\<open>#ts > :last_ts AND #ts <= :current_ts\<close> and, after the first page,
  the continuation key; it returns a page or raises.
\<close>

record scan_request =
  last_ts :: timestamp
  current_ts :: timestamp
  ExclusiveStartKey :: "nat option"

record scan_response =
  Items :: "row list option"
  LastEvaluatedKey :: "nat option"

type_synonym table = "scan_request \<Rightarrow> exn + scan_response"

record reader =
  last_read_timestamp :: "timestamp option"

text \<open>\<^verbatim>\<open>response.get('Items', [])\<close>\<close>

definition get_Items :: "scan_response \<Rightarrow> row list" where
  "get_Items response = (case Items response of None \<Rightarrow> [] | Some xs \<Rightarrow> xs)"

text \<open>
  The \<^verbatim>\<open>while 'LastEvaluatedKey' in response\<close> loop. It runs for as long as the table
  keeps handing out keys, so it is a partial function: \<open>None\<close> is the loop that never
  ends. \<open>sent\<close> collects the requests made, in order; an exception leaves the loop
  with the requests made so far.
\<close>

partial_function (option) paginate ::
  "table \<Rightarrow> timestamp \<Rightarrow> timestamp \<Rightarrow> scan_response \<Rightarrow> row list \<Rightarrow> scan_request list
     \<Rightarrow> ((exn + row list) \<times> scan_request list) option" where
  "paginate tbl lo hi response items sent =
     (case LastEvaluatedKey response of
        None \<Rightarrow> Some (Inr items, sent)
      | Some k \<Rightarrow>
          (case tbl \<lparr>last_ts = lo, current_ts = hi, ExclusiveStartKey = Some k\<rparr> of
             Inl e \<Rightarrow>
               Some (Inl e, sent @ [\<lparr>last_ts = lo, current_ts = hi, ExclusiveStartKey = Some k\<rparr>])
           | Inr response' \<Rightarrow>
               paginate tbl lo hi response' (items @ get_Items response')
                 (sent @ [\<lparr>last_ts = lo, current_ts = hi, ExclusiveStartKey = Some k\<rparr>])))"

text \<open>\<^verbatim>\<open>[item.get('datetime_utc', 'N/A') for item in items[:3]]\<close>\<close>

definition sample_timestamps :: "row list \<Rightarrow> scalar list" where
  "sample_timestamps items =
     map (\<lambda>item. case map_of item ''datetime_utc'' of None \<Rightarrow> Str ''N/A'' | Some v \<Rightarrow> v)
       (take 3 items)"

text \<open>
  What the \<^verbatim>\<open>try\<close> block of \<^verbatim>\<open>get_new_data\<close> does with an exception \<open>e\<close> of a scan:
  the two botocore classes are logged and answered with the empty list, anything else
  leaves the method (\<open>Inl\<close>). \<open>r1\<close> is the reader as the scan found it.
\<close>

definition scan_failed ::
  "exn \<Rightarrow> reader \<Rightarrow> log \<Rightarrow> scan_request list
     \<Rightarrow> (exn + row list) \<times> reader \<times> log \<times> scan_request list" where
  "scan_failed e r1 lg sent =
     (if boto_error e
      then (Inr [], r1, lg @ [(ERROR, Error_reading_from_DynamoDB e)], sent)
      else (Inl e, r1, lg, sent))"

text \<open>
  \<^verbatim>\<open>get_new_data\<close>. \<open>now0\<close> and \<open>now1\<close> are the two readings of
  \<^verbatim>\<open>datetime.now(timezone.utc)\<close>, in whole seconds; \<open>now0\<close> is read on the first call only.
  The result holds what the method returns or raises, the reader afterwards, the log
  lines written and the scan requests made.
\<close>

definition get_new_data ::
  "table \<Rightarrow> timestamp \<Rightarrow> timestamp \<Rightarrow> reader
     \<Rightarrow> ((exn + row list) \<times> reader \<times> log \<times> scan_request list) option" where
  "get_new_data tbl now0 now1 r =
     (let lo = (case last_read_timestamp r of None \<Rightarrow> now0 - 3600 | Some t \<Rightarrow> t);
          r1 = r\<lparr>last_read_timestamp := Some lo\<rparr>;
          current_timestamp = now1;
          lg = [(INFO, Searching_for_data lo current_timestamp)];
          first = \<lparr>last_ts = lo, current_ts = current_timestamp, ExclusiveStartKey = None\<rparr>
      in case tbl first of
           Inl e \<Rightarrow> Some (scan_failed e r1 lg [first])
         | Inr response \<Rightarrow>
             (case paginate tbl lo current_timestamp response (get_Items response) [first] of
                None \<Rightarrow> None
              | Some (Inl e, sent) \<Rightarrow> Some (scan_failed e r1 lg sent)
              | Some (Inr items, sent) \<Rightarrow>
                  Some (Inr items,
                        r1\<lparr>last_read_timestamp := Some current_timestamp\<rparr>,
                        lg @ [(INFO, Retrieved_new_items (length items))]
                           @ (if items \<noteq> [] then [(INFO, Sample_timestamps (sample_timestamps items))]
                              else []),
                        sent)))"

text \<open>The lower bound a fetch works with: the stored watermark, or an hour before the first reading.\<close>

definition window_start :: "timestamp \<Rightarrow> reader \<Rightarrow> timestamp" where
  "window_start now0 r = (case last_read_timestamp r of None \<Rightarrow> now0 - 3600 | Some t \<Rightarrow> t)"

text \<open>
  What the table does along one chain of continuation keys, told without the loop:
  \<open>follows tbl lo hi p ps\<close> says that after page \<open>p\<close> the table hands out the pages
  \<open>ps\<close>, one for each key, and that the last page carries no key;
  \<open>breaks tbl lo hi p ps e\<close> says that it hands out the pages \<open>ps\<close> and then raises
  \<open>e\<close> for the key of the last one.
\<close>

fun follows :: "table \<Rightarrow> timestamp \<Rightarrow> timestamp \<Rightarrow> scan_response \<Rightarrow> scan_response list \<Rightarrow> bool" where
  "follows tbl lo hi p [] = (LastEvaluatedKey p = None)"
| "follows tbl lo hi p (q # qs) =
     (case LastEvaluatedKey p of
        None \<Rightarrow> False
      | Some k \<Rightarrow>
          tbl \<lparr>last_ts = lo, current_ts = hi, ExclusiveStartKey = Some k\<rparr> = Inr q
          \<and> follows tbl lo hi q qs)"

fun breaks ::
  "table \<Rightarrow> timestamp \<Rightarrow> timestamp \<Rightarrow> scan_response \<Rightarrow> scan_response list \<Rightarrow> exn \<Rightarrow> bool" where
  "breaks tbl lo hi p [] e =
     (case LastEvaluatedKey p of
        None \<Rightarrow> False
      | Some k \<Rightarrow> tbl \<lparr>last_ts = lo, current_ts = hi, ExclusiveStartKey = Some k\<rparr> = Inl e)"
| "breaks tbl lo hi p (q # qs) e =
     (case LastEvaluatedKey p of
        None \<Rightarrow> False
      | Some k \<Rightarrow>
          tbl \<lparr>last_ts = lo, current_ts = hi, ExclusiveStartKey = Some k\<rparr> = Inr q
          \<and> breaks tbl lo hi q qs e)"

text \<open>The log lines of a fetch that ends well.\<close>

definition success_log :: "timestamp \<Rightarrow> timestamp \<Rightarrow> row list \<Rightarrow> log" where
  "success_log lo hi items =
     [(INFO, Searching_for_data lo hi), (INFO, Retrieved_new_items (length items))]
     @ (if items \<noteq> [] then [(INFO, Sample_timestamps (sample_timestamps items))] else [])"

text \<open>The requests of one fetch: the first without a key, then one for the key of each page but the last.\<close>

definition requests_for :: "timestamp \<Rightarrow> timestamp \<Rightarrow> scan_response list \<Rightarrow> scan_request list" where
  "requests_for lo hi ps =
     \<lparr>last_ts = lo, current_ts = hi, ExclusiveStartKey = None\<rparr>
     # map (\<lambda>p. \<lparr>last_ts = lo, current_ts = hi, ExclusiveStartKey = LastEvaluatedKey p\<rparr>) ps"

text \<open>
  A run of fetch cycles, each with its table and its clock readings; the result lists
  the watermark stored after each cycle.
\<close>

fun run_fetches ::
  "(table \<times> timestamp \<times> timestamp) list \<Rightarrow> reader \<Rightarrow> timestamp option list option" where
  "run_fetches [] r = Some []"
| "run_fetches ((tbl, now0, now1) # cs) r =
     (case get_new_data tbl now0 now1 r of
        None \<Rightarrow> None
      | Some (res, r', lg, sent) \<Rightarrow>
          (case run_fetches cs r' of
             None \<Rightarrow> None
           | Some ws \<Rightarrow> Some (last_read_timestamp r' # ws)))"

text \<open>
  A clock that never reads earlier than before: \<open>l\<close> is the latest reading so far,
  and each cycle reads \<open>now0\<close>, then \<open>now1\<close>.
\<close>

fun steady :: "timestamp option \<Rightarrow> (table \<times> timestamp \<times> timestamp) list \<Rightarrow> bool" where
  "steady l [] = True"
| "steady l ((tbl, now0, now1) # cs) =
     ((case l of None \<Rightarrow> True | Some t \<Rightarrow> t \<le> now0) \<and> now0 \<le> now1 \<and> steady (Some now1) cs)"

text \<open>A table with nothing in the window, and one that hands out three pages.\<close>

definition quiet_table :: table where
  "quiet_table req = Inr \<lparr>Items = Some [], LastEvaluatedKey = None\<rparr>"

definition three_pages :: table where
  "three_pages req =
     (case ExclusiveStartKey req of
        None \<Rightarrow> Inr \<lparr>Items = Some [[(''id'', Num ''1'')]], LastEvaluatedKey = Some 1\<rparr>
      | Some k \<Rightarrow>
          if k = 1 then Inr \<lparr>Items = Some [[(''id'', Num ''2'')], [(''id'', Num ''3'')]],
                                LastEvaluatedKey = Some 2\<rparr>
          else if k = 2 then Inr \<lparr>Items = Some [[(''id'', Num ''4'')]], LastEvaluatedKey = None\<rparr>
          else Inl ClientError)"

text \<open>A table that hands out two pages and then fails.\<close>

definition failing_table :: table where
  "failing_table req =
     (case ExclusiveStartKey req of
        None \<Rightarrow> Inr \<lparr>Items = Some [[(''id'', Num ''1'')]], LastEvaluatedKey = Some 1\<rparr>
      | Some k \<Rightarrow>
          if k = 1 then Inr \<lparr>Items = Some [[(''id'', Num ''2'')]], LastEvaluatedKey = Some 2\<rparr>
          else Inl ClientError)"

text \<open>The order on stored watermarks; \<open>None\<close> is the reader that has not fetched yet.\<close>

fun wm_le :: "timestamp option \<Rightarrow> timestamp option \<Rightarrow> bool" where
  "wm_le None _ = True"
| "wm_le (Some a) None = False"
| "wm_le (Some a) (Some b) = (a \<le> b)"

section \<open>GoogleDriveUploader\<close>

text \<open>
  The Drive service is outside the program. Its model keeps what the three calls of the
  uploader depend on: the stored objects, and for every call, numbered in the order they
  arrive, whether it raises. The journal lists the calls received. An object identifier
  is an opaque text that Drive assigns; it is kept as a number, and every identifier is
  truthy.
\<close>

record remote_file =
  file_id :: nat
  file_name :: string
  parents :: "string list"
  trashed :: bool
  media :: string

text \<open>
  \<open>Files_list name parent driveId\<close> is \<^verbatim>\<open>files().list\<close> with the query
  \<^verbatim>\<open>name='..' and trashed=false\<close>, \<^verbatim>\<open>and '..' in parents\<close> when \<open>parent\<close> is given,
  and the shared-drive parameters when \<open>driveId\<close> is given.
  \<open>Files_update fileId media_body supportsAllDrives\<close> is \<^verbatim>\<open>files().update\<close>.
  \<open>Files_create name parents media_body supportsAllDrives\<close> is \<^verbatim>\<open>files().create\<close>.
\<close>

datatype drive_request =
    Files_list string "string option" "string option"
  | Files_update nat string bool
  | Files_create string "string list" string bool

record drive =
  objects :: "remote_file list"
  faults :: "nat \<Rightarrow> exn option"
  journal :: "drive_request list"

definition matches :: "string \<Rightarrow> string option \<Rightarrow> remote_file \<Rightarrow> bool" where
  "matches name parent f =
     (file_name f = name \<and> \<not> trashed f
      \<and> (case parent of None \<Rightarrow> True | Some p \<Rightarrow> p \<in> set (parents f)))"

definition fresh_id :: "remote_file list \<Rightarrow> nat" where
  "fresh_id fs = Suc (fold max (map file_id fs) 0)"

definition files_list ::
  "string \<Rightarrow> string option \<Rightarrow> string option \<Rightarrow> drive \<Rightarrow> (exn + nat list) \<times> drive" where
  "files_list name parent drv d =
     (let d' = d\<lparr>journal := journal d @ [Files_list name parent drv]\<rparr>
      in case faults d (length (journal d)) of
           Some e \<Rightarrow> (Inl e, d')
         | None \<Rightarrow> (Inr (map file_id (filter (matches name parent) (objects d))), d'))"

text \<open>An update of an identifier that no object has is refused by the service.\<close>

definition files_update :: "nat \<Rightarrow> string \<Rightarrow> bool \<Rightarrow> drive \<Rightarrow> (exn + nat) \<times> drive" where
  "files_update fileId media_body supports d =
     (let d' = d\<lparr>journal := journal d @ [Files_update fileId media_body supports]\<rparr>
      in case faults d (length (journal d)) of
           Some e \<Rightarrow> (Inl e, d')
         | None \<Rightarrow>
             if fileId \<in> set (map file_id (objects d))
             then (Inr fileId,
                   d'\<lparr>objects := map (\<lambda>f. if file_id f = fileId then f\<lparr>media := media_body\<rparr> else f)
                                   (objects d)\<rparr>)
             else (Inl OtherException, d'))"

definition files_create ::
  "string \<Rightarrow> string list \<Rightarrow> string \<Rightarrow> bool \<Rightarrow> drive \<Rightarrow> (exn + nat) \<times> drive" where
  "files_create name ps media_body supports d =
     (let d' = d\<lparr>journal := journal d @ [Files_create name ps media_body supports]\<rparr>
      in case faults d (length (journal d)) of
           Some e \<Rightarrow> (Inl e, d')
         | None \<Rightarrow>
             (Inr (fresh_id (objects d)),
              d'\<lparr>objects := objects d @
                   [\<lparr>file_id = fresh_id (objects d), file_name = name, parents = ps,
                     trashed = False, media = media_body\<rparr>]\<rparr>))"

record uploader =
  folder_id :: "string option"
  shared_drive_id :: "string option"
  file_cache :: "string \<rightharpoonup> nat"

text \<open>The parent the query and the new object are scoped to: the folder, when one is configured.\<close>

definition query_parent :: "uploader \<Rightarrow> string option" where
  "query_parent u = (if truthy (folder_id u) then folder_id u else None)"

definition query_drive :: "uploader \<Rightarrow> string option" where
  "query_drive u = (if truthy (shared_drive_id u) then shared_drive_id u else None)"

definition find_existing_file ::
  "string \<Rightarrow> uploader \<Rightarrow> drive \<Rightarrow> nat option \<times> uploader \<times> drive \<times> log" where
  "find_existing_file filename u d =
     (case file_cache u filename of
        Some i \<Rightarrow> (Some i, u, d, [])
      | None \<Rightarrow>
          (case files_list filename (query_parent u) (query_drive u) d of
             (Inl e, d') \<Rightarrow>
               (None, u, d', [(ERROR, Error_searching_for_existing_file filename e)])
           | (Inr [], d') \<Rightarrow> (None, u, d', [])
           | (Inr (i # _), d') \<Rightarrow>
               (Some i, u\<lparr>file_cache := (file_cache u)(filename \<mapsto> i)\<rparr>, d', [])))"

definition new_file_parents :: "uploader \<Rightarrow> string list" where
  "new_file_parents u =
     (if truthy (shared_drive_id u) \<and> truthy (folder_id u)
      then (case folder_id u of Some f \<Rightarrow> [f] | None \<Rightarrow> [])
      else if truthy (folder_id u) \<and> \<not> truthy (shared_drive_id u)
      then (case folder_id u of Some f \<Rightarrow> [f] | None \<Rightarrow> [])
      else [])"

definition upload_or_update_csv ::
  "string \<Rightarrow> string \<Rightarrow> uploader \<Rightarrow> drive \<Rightarrow> nat option \<times> uploader \<times> drive \<times> log" where
  "upload_or_update_csv csv_content filename u d =
     (case find_existing_file filename u d of
        (Some existing_file_id, u1, d1, lg1) \<Rightarrow>
          (case files_update existing_file_id csv_content (truthy (shared_drive_id u1)) d1 of
             (Inr i, d2) \<Rightarrow> (Some i, u1, d2, lg1 @ [(INFO, Successfully_updated filename i)])
           | (Inl e, d2) \<Rightarrow> (None, u1, d2, lg1 @ [(ERROR, Error_uploading_updating filename e)]))
      | (None, u1, d1, lg1) \<Rightarrow>
          (case files_create filename (new_file_parents u1) csv_content
                  (truthy (shared_drive_id u1)) d1 of
             (Inr i, d2) \<Rightarrow>
               (Some i, u1\<lparr>file_cache := (file_cache u1)(filename \<mapsto> i)\<rparr>, d2,
                lg1 @ [(INFO, Successfully_uploaded_new filename i)])
           | (Inl e, d2) \<Rightarrow> (None, u1, d2, lg1 @ [(ERROR, Error_uploading_updating filename e)])))"

text \<open>The objects that the lookup for \<open>filename\<close> is about: those its query selects.\<close>

definition named :: "uploader \<Rightarrow> string \<Rightarrow> drive \<Rightarrow> remote_file list" where
  "named u filename d = filter (matches filename (query_parent u)) (objects d)"

section \<open>DataWriterApp\<close>

record app =
  db_reader :: reader
  drive_uploader :: uploader
  csv_writer :: writer
  is_running :: bool

text \<open>
  \<^verbatim>\<open>read_and_write_data\<close>, the tick of every minute. \<open>tbl\<close>, \<open>now0\<close>, \<open>now1\<close> are the
  table and the clock as the fetch finds them, \<open>hour_add\<close> and \<open>hour_name\<close> the local
  hour labels that \<^verbatim>\<open>add_data\<close> and \<^verbatim>\<open>get_current_filename\<close> read. The first component
  of the result is the exception that leaves the method, if one does.
\<close>

definition read_and_write_data ::
  "table \<Rightarrow> timestamp \<Rightarrow> timestamp \<Rightarrow> string \<Rightarrow> string \<Rightarrow> renderer \<Rightarrow> app \<Rightarrow> drive
     \<Rightarrow> (exn option \<times> app \<times> drive \<times> log) option" where
  "read_and_write_data tbl now0 now1 hour_add hour_name to_csv a d =
     (case get_new_data tbl now0 now1 (db_reader a) of
        None \<Rightarrow> None
      | Some (Inl e, r', lg, sent) \<Rightarrow>
          Some (Some e, a\<lparr>db_reader := r'\<rparr>, d, (INFO, Reading_new_data) # lg)
      | Some (Inr new_data, r', lg, sent) \<Rightarrow>
          if new_data \<noteq> [] then
            (case add_data hour_add new_data (csv_writer a) of
               (w1, lg1) \<Rightarrow>
                 (case get_current_csv_content to_csv w1 of
                    (Some csv_content, w2, lg2) \<Rightarrow>
                      if csv_content \<noteq> [] then
                        (case upload_or_update_csv csv_content (get_current_filename hour_name w2)
                                (drive_uploader a) d of
                           (i, u', d', lg3) \<Rightarrow>
                             Some (None,
                                   a\<lparr>db_reader := r', csv_writer := w2, drive_uploader := u'\<rparr>, d',
                                   (INFO, Reading_new_data) # lg @ lg1 @ lg2 @ lg3))
                      else
                        Some (None, a\<lparr>db_reader := r', csv_writer := w2\<rparr>, d,
                              (INFO, Reading_new_data) # lg @ lg1 @ lg2)
                  | (None, w2, lg2) \<Rightarrow>
                      Some (None, a\<lparr>db_reader := r', csv_writer := w2\<rparr>, d,
                            (INFO, Reading_new_data) # lg @ lg1 @ lg2)))
          else
            Some (None, a\<lparr>db_reader := r'\<rparr>, d,
                  (INFO, Reading_new_data) # lg @ [(INFO, No_new_data_found)]))"

definition upload_hourly_csv :: "string \<Rightarrow> renderer \<Rightarrow> app \<Rightarrow> drive \<Rightarrow> app \<times> drive \<times> log" where
  "upload_hourly_csv hour_name to_csv a d =
     (case get_current_csv_content to_csv (csv_writer a) of
        (Some csv_content, w, lg) \<Rightarrow>
          if csv_content \<noteq> [] then
            (case upload_or_update_csv csv_content (get_current_filename hour_name w)
                    (drive_uploader a) d of
               (i, u', d', lg1) \<Rightarrow>
                 (a\<lparr>csv_writer := w, drive_uploader := u'\<rparr>, d',
                  (INFO, Hour_boundary_reached) # lg @ lg1))
          else
            (a\<lparr>csv_writer := w\<rparr>, d,
             (INFO, Hour_boundary_reached) # lg @ [(INFO, No_data_for_current_hour)])
      | (None, w, lg) \<Rightarrow>
          (a\<lparr>csv_writer := w\<rparr>, d,
           (INFO, Hour_boundary_reached) # lg @ [(INFO, No_data_for_current_hour)]))"

definition stop :: "string \<Rightarrow> renderer \<Rightarrow> app \<Rightarrow> drive \<Rightarrow> app \<times> drive \<times> log" where
  "stop hour_name to_csv a d =
     (let a0 = a\<lparr>is_running := False\<rparr>
      in case get_current_csv_content to_csv (csv_writer a0) of
           (Some csv_content, w, lg) \<Rightarrow>
             if csv_content \<noteq> [] then
               (case upload_or_update_csv csv_content (get_current_filename hour_name w)
                       (drive_uploader a0) d of
                  (i, u', d', lg1) \<Rightarrow>
                    (a0\<lparr>csv_writer := w, drive_uploader := u'\<rparr>, d',
                     (INFO, Stopping) # lg @ lg1 @ [(INFO, Application_stopped)]))
             else
               (a0\<lparr>csv_writer := w\<rparr>, d, (INFO, Stopping) # lg @ [(INFO, Application_stopped)])
         | (None, w, lg) \<Rightarrow>
             (a0\<lparr>csv_writer := w\<rparr>, d, (INFO, Stopping) # lg @ [(INFO, Application_stopped)]))"

text \<open>The requests of a journal that carry content: the sync calls that reached the service.\<close>

fun content_of :: "drive_request \<Rightarrow> string option" where
  "content_of (Files_list _ _ _) = None"
| "content_of (Files_update _ m _) = Some m"
| "content_of (Files_create _ _ m _) = Some m"

definition uploads :: "drive_request list \<Rightarrow> string list" where
  "uploads js = concat (map (\<lambda>q. case content_of q of None \<Rightarrow> [] | Some m \<Rightarrow> [m]) js)"

section \<open>The library's rendering of a bucket\<close>

text \<open>
  What \<^verbatim>\<open>pd.DataFrame(rows).to_csv(index=False)\<close> gives for a list of dicts: the frame has
  one column for each key, a column has a type that the library infers from its cells,
  and the type decides how a cell is written.
\<close>

text \<open>The column labels: the keys of all rows, each at the place where it is seen first.\<close>

fun first_seen :: "string list \<Rightarrow> string list \<Rightarrow> string list" where
  "first_seen seen [] = seen"
| "first_seen seen (k # ks) =
     (if k \<in> set seen then first_seen seen ks else first_seen (seen @ [k]) ks)"

definition columns :: "row list \<Rightarrow> string list" where
  "columns rows = first_seen [] (concat (map (map fst) rows))"

text \<open>Python's \<^verbatim>\<open>str\<close> of a value; \<^verbatim>\<open>None\<close> is a missing value, written as the empty text.\<close>

fun digits :: "nat \<Rightarrow> string" where
  "digits n =
     (if n < 10 then [''0123456789'' ! n]
      else digits (n div 10) @ [''0123456789'' ! (n mod 10)])"

fun str :: "scalar \<Rightarrow> string" where
  "str (Str s) = s"
| "str (Num t) = t"
| "str (Bool b) = (if b then ''True'' else ''False'')"
| "str Null = []"
| "str (PyInt n) = (if n < 0 then ''-'' @ digits (nat (- n)) else digits (nat n))"
| "str (PyFloat t) = t"

text \<open>
  The cells of one column, row by row; \<open>None\<close> is a row without the field. The type of
  the column: integers throughout give an integer column; integers and floats with gaps
  or \<^verbatim>\<open>None\<close> among them, or floats at all, give a float column; anything else (a text,
  a \<^verbatim>\<open>Decimal\<close>, a boolean) leaves a column of Python objects.
\<close>

definition column :: "row list \<Rightarrow> string \<Rightarrow> scalar option list" where
  "column rows c = map (\<lambda>r. map_of r c) rows"

datatype dtype = Int64 | Float64 | Object

fun is_int :: "scalar option \<Rightarrow> bool" where
  "is_int (Some (PyInt n)) = True"
| "is_int _ = False"

fun is_number :: "scalar option \<Rightarrow> bool" where
  "is_number (Some (PyInt n)) = True"
| "is_number (Some (PyFloat t)) = True"
| "is_number _ = False"

fun number_or_gap :: "scalar option \<Rightarrow> bool" where
  "number_or_gap None = True"
| "number_or_gap (Some Null) = True"
| "number_or_gap (Some (PyInt n)) = True"
| "number_or_gap (Some (PyFloat t)) = True"
| "number_or_gap _ = False"

definition infer :: "scalar option list \<Rightarrow> dtype" where
  "infer cells =
     (if list_all is_int cells then Int64
      else if list_all number_or_gap cells \<and> list_ex is_number cells then Float64
      else Object)"

text \<open>
  The text of a cell. A gap and \<^verbatim>\<open>None\<close> are written as the empty text. In a float column
  an integer has become a float and is written as one (\<open>2\<close> as \<open>2.0\<close>; this is the text for
  the integers that a float holds exactly, up to \<open>2 ^ 53\<close>). Everywhere else the cell is
  written with \<^verbatim>\<open>str\<close>.
\<close>

fun cell_text :: "dtype \<Rightarrow> scalar option \<Rightarrow> string" where
  "cell_text k None = []"
| "cell_text k (Some Null) = []"
| "cell_text Float64 (Some (PyInt n)) = str (PyInt n) @ ''.0''"
| "cell_text k (Some v) = str v"

definition cell :: "row list \<Rightarrow> row \<Rightarrow> string \<Rightarrow> string" where
  "cell rows r c = cell_text (infer (column rows c)) (map_of r c)"

text \<open>
  The \<^verbatim>\<open>csv\<close> writer with minimal quoting: a field that holds a comma, a double quote or
  a line break is put in double quotes, its double quotes doubled; a record that is one
  empty field is written as two double quotes; every record ends with a line feed.
\<close>

definition special :: "char \<Rightarrow> bool" where
  "special c = (c = CHR '','' \<or> c = CHR 0x22 \<or> c = CHR 0x0A \<or> c = CHR 0x0D)"

definition csv_field :: "string \<Rightarrow> string" where
  "csv_field s =
     (if list_ex special s
      then [CHR 0x22] @ concat (map (\<lambda>c. if c = CHR 0x22 then [c, c] else [c]) s) @ [CHR 0x22]
      else s)"

fun comma_join :: "string list \<Rightarrow> string" where
  "comma_join [] = []"
| "comma_join [s] = s"
| "comma_join (s # t # ss) = s @ '','' @ comma_join (t # ss)"

definition csv_record :: "string list \<Rightarrow> string" where
  "csv_record cells =
     (if cells = [''''] then [CHR 0x22, CHR 0x22] else comma_join (map csv_field cells)) @ [CHR 0x0A]"

definition pandas_to_csv :: renderer where
  "pandas_to_csv rows =
     Inr (concat (map csv_record
            (columns rows # map (\<lambda>r. map (cell rows r) (columns rows)) rows)))"

section \<open>The table as the specification words it\<close>






section \<open>Concrete states used in the examples\<close>

definition w_ex :: writer where
  "w_ex = \<lparr>path_prefix = ''data/hourly_export'', name_prefix = ''locness_data'',
          current_hour_data = [[(''a'', Num ''1'')]], current_hour = Some ''20250101_10''\<rparr>"

definition w_new :: writer where
  "w_new = \<lparr>path_prefix = ''data/hourly_export'', name_prefix = ''locness_data'',
           current_hour_data = [], current_hour = None\<rparr>"

definition w_ab :: writer where
  "w_ab = \<lparr>path_prefix = ''data/hourly_export'', name_prefix = ''locness_data'',
          current_hour_data = [[(''a'', Num ''1''), (''b'', Num ''2'')], [(''a'', Num ''3''), (''c'', Num ''4'')]],
          current_hour = Some ''20250101_10''\<rparr>"


text \<open>A table whose scan raises an exception that is not one of botocore's.\<close>

definition broken_table :: table where
  "broken_table req = Inl OtherException"

definition u_ex :: uploader where
  "u_ex = \<lparr>folder_id = Some ''folder'', shared_drive_id = None, file_cache = Map.empty\<rparr>"

text \<open>A store with nothing in it that answers every call, and one that refuses every call.\<close>

definition d_empty :: drive where
  "d_empty = \<lparr>objects = [], faults = (\<lambda>n. None), journal = []\<rparr>"

definition d_down :: drive where
  "d_down = \<lparr>objects = [], faults = (\<lambda>n. Some OtherException), journal = []\<rparr>"

text \<open>
  A store that already holds the object of the hour, as after a restart of the process,
  and whose first call fails.
\<close>

definition d_old :: drive where
  "d_old = \<lparr>objects = [\<lparr>file_id = 7, file_name = ''x.csv'', parents = [''folder''],
                          trashed = False, media = ''old''\<rparr>],
            faults = (\<lambda>n. if n = 0 then Some OtherException else None), journal = []\<rparr>"

text \<open>An uploader that has cached the name, and the store with the object it has cached.\<close>

definition u_seen :: uploader where
  "u_seen = \<lparr>folder_id = Some ''folder'', shared_drive_id = None, file_cache = [''x.csv'' \<mapsto> 7]\<rparr>"

definition d_seen :: drive where
  "d_seen = \<lparr>objects = [\<lparr>file_id = 7, file_name = ''x.csv'', parents = [''folder''],
                           trashed = False, media = ''a''\<rparr>],
             faults = (\<lambda>n. None), journal = []\<rparr>"

text \<open>The application as \<^verbatim>\<open>start\<close> sets it running, before the first tick, and a renderer that raises.\<close>

definition a_ex :: app where
  "a_ex = \<lparr>db_reader = \<lparr>last_read_timestamp = None\<rparr>, drive_uploader = u_ex,
          csv_writer = w_new, is_running = True\<rparr>"

definition broken_renderer :: renderer where
  "broken_renderer rows = Inl OtherException"

text \<open>
  Two ticks in a row: one that fetches four rows while the store refuses every call, and
  the next one, a minute later in the same hour, that fetches nothing.
\<close>

definition failed_tick :: "(exn option \<times> app \<times> drive \<times> log) option" where
  "failed_tick =
     read_and_write_data three_pages 1000 1000 ''20250101_10'' ''20250101_10'' pandas_to_csv a_ex d_down"

definition idle_tick :: "(exn option \<times> app \<times> drive \<times> log) option" where
  "idle_tick =
     (case failed_tick of
        None \<Rightarrow> None
      | Some (ex, a1, d1, lg1) \<Rightarrow>
          read_and_write_data quiet_table 1060 1060 ''20250101_10'' ''20250101_10'' pandas_to_csv a1 d1)"

section \<open>The accumulator\<close>

lemma add_all_same_hour:
  "current_hour w = Some h \<Longrightarrow> \<forall>x\<in>set rest. fst x = h \<Longrightarrow>
   add_all rest w = w\<lparr>current_hour_data := current_hour_data w @ concat (map snd rest)\<rparr>"
proof (induction rest arbitrary: w)
  case Nil
  then show ?case by simp
next
  case (Cons x rest)
  obtain h' d where x: "x = (h', d)" by (cases x)
  with Cons.prems have h': "h' = h" by simp
  let ?w = "fst (add_data h d w)"
  have w1: "?w = w\<lparr>current_hour_data := current_hour_data w @ d\<rparr>"
    using Cons.prems(1) by (simp add: add_data_def)
  have "add_all rest ?w = ?w\<lparr>current_hour_data := current_hour_data ?w @ concat (map snd rest)\<rparr>"
    using Cons.prems by (intro Cons.IH) (simp_all add: w1)
  then show ?case by (simp add: x h' w1)
qed

text \<open>
  C6. \<^verbatim>\<open>add_data\<close> with no rows changes nothing. With rows, a clock label that differs
  from the stored one replaces the bucket by the incoming rows alone; an equal label
  appends them in arrival order. So after a label change the bucket holds exactly the
  rows added from the change on.
\<close>

theorem add_data_bucket:
  "add_data h [] w = (w, [])
   \<and> (data \<noteq> [] \<and> current_hour w \<noteq> Some h \<longrightarrow>
        fst (add_data h data w) = w\<lparr>current_hour := Some h, current_hour_data := data\<rparr>)
   \<and> (data \<noteq> [] \<and> current_hour w = Some h \<longrightarrow>
        fst (add_data h data w) = w\<lparr>current_hour_data := current_hour_data w @ data\<rparr>)
   \<and> (data \<noteq> [] \<and> current_hour w \<noteq> Some h \<and> (\<forall>x\<in>set rest. fst x = h) \<longrightarrow>
        current_hour_data (add_all rest (fst (add_data h data w))) = data @ concat (map snd rest))"
proof -
  have a: "add_data h [] w = (w, [])" by (simp add: add_data_def)
  have b: "fst (add_data h data w) = w\<lparr>current_hour := Some h, current_hour_data := data\<rparr>"
    if "data \<noteq> []" "current_hour w \<noteq> Some h"
    using that by (simp add: add_data_def)
  have c: "fst (add_data h data w) = w\<lparr>current_hour_data := current_hour_data w @ data\<rparr>"
    if "data \<noteq> []" "current_hour w = Some h"
    using that by (simp add: add_data_def)
  have d: "current_hour_data (add_all rest (fst (add_data h data w))) = data @ concat (map snd rest)"
    if "data \<noteq> []" "current_hour w \<noteq> Some h" "\<forall>x\<in>set rest. fst x = h"
    using that by (simp add: b add_all_same_hour)
  from a b c d show ?thesis by blast
qed

theorem add_data_bucket_witness:
  "add_data ''20250101_11'' [] w_ex = (w_ex, [])
   \<and> fst (add_data ''20250101_11'' [[(''b'', Num ''2'')]] w_ex)
       = w_ex\<lparr>current_hour := Some ''20250101_11'', current_hour_data := [[(''b'', Num ''2'')]]\<rparr>
   \<and> fst (add_data ''20250101_10'' [[(''b'', Num ''2'')]] w_ex)
       = w_ex\<lparr>current_hour_data := [[(''a'', Num ''1'')], [(''b'', Num ''2'')]]\<rparr>
   \<and> current_hour_data (add_all [(''20250101_11'', [[(''c'', Num ''3'')]])]
        (fst (add_data ''20250101_11'' [[(''b'', Num ''2'')]] w_ex)))
       = [[(''b'', Num ''2'')], [(''c'', Num ''3'')]]"
proof -
  have new: "current_hour w_ex \<noteq> Some ''20250101_11''"
    and old: "current_hour w_ex = Some ''20250101_10''"
    and rows: "current_hour_data w_ex = [[(''a'', Num ''1'')]]"
    and ne: "[[(''b'', Num ''2'')]] \<noteq> ([] :: row list)"
    and same: "\<forall>x\<in>set [(''20250101_11'', [[(''c'', Num ''3'')]])]. fst x = ''20250101_11''"
    by (simp_all add: w_ex_def)
  note t1 = add_data_bucket [of "''20250101_11''" w_ex "[[(''b'', Num ''2'')]]"
      "[(''20250101_11'', [[(''c'', Num ''3'')]])]"]
  note t2 = add_data_bucket [of "''20250101_10''" w_ex "[[(''b'', Num ''2'')]]" "[]"]
  from t1 new have "add_data ''20250101_11'' [] w_ex = (w_ex, [])" by blast
  moreover from t1 new ne have "fst (add_data ''20250101_11'' [[(''b'', Num ''2'')]] w_ex)
       = w_ex\<lparr>current_hour := Some ''20250101_11'', current_hour_data := [[(''b'', Num ''2'')]]\<rparr>"
    by blast
  moreover from t2 old rows have "fst (add_data ''20250101_10'' [[(''b'', Num ''2'')]] w_ex)
       = w_ex\<lparr>current_hour_data := [[(''a'', Num ''1'')], [(''b'', Num ''2'')]]\<rparr>"
    by simp
  moreover from t1 new ne same have "current_hour_data (add_all [(''20250101_11'', [[(''c'', Num ''3'')]])]
        (fst (add_data ''20250101_11'' [[(''b'', Num ''2'')]] w_ex)))
       = [[(''b'', Num ''2'')]] @ concat (map snd [(''20250101_11'', [[(''c'', Num ''3'')]])])"
    by blast
  then have "current_hour_data (add_all [(''20250101_11'', [[(''c'', Num ''3'')]])]
        (fst (add_data ''20250101_11'' [[(''b'', Num ''2'')]] w_ex)))
       = [[(''b'', Num ''2'')], [(''c'', Num ''3'')]]"
    by (simp del: add_all.simps)
  ultimately show ?thesis by blast
qed

text \<open>
  C7. Rendering returns the writer as it found it, so a second rendering right after the
  first gives the same text (and the same log line): the bucket's rows and label are
  not touched.
\<close>

theorem render_twice:
  "fst (snd (get_current_csv_content to_csv w)) = w
   \<and> get_current_csv_content to_csv (fst (snd (get_current_csv_content to_csv w)))
       = get_current_csv_content to_csv w"
  by (simp add: get_current_csv_content_def write_hour_data_def split: sum.splits)

section \<open>The reader\<close>

lemma paginate_follows:
  "follows tbl lo hi p ps \<Longrightarrow>
   paginate tbl lo hi p items sent =
     Some (Inr (items @ concat (map get_Items ps)),
           sent @ map (\<lambda>q. \<lparr>last_ts = lo, current_ts = hi, ExclusiveStartKey = LastEvaluatedKey q\<rparr>)
                    (butlast (p # ps)))"
proof (induction ps arbitrary: p items sent)
  case Nil
  then show ?case by (subst paginate.simps) simp
next
  case (Cons q qs)
  from Cons.prems obtain k where k: "LastEvaluatedKey p = Some k"
    and q: "tbl \<lparr>last_ts = lo, current_ts = hi, ExclusiveStartKey = Some k\<rparr> = Inr q"
    and rest: "follows tbl lo hi q qs"
    by (auto split: option.splits)
  show ?case
    by (subst paginate.simps) (simp add: k q Cons.IH [OF rest])
qed

lemma paginate_breaks:
  "breaks tbl lo hi p ps e \<Longrightarrow>
   paginate tbl lo hi p items sent =
     Some (Inl e,
           sent @ map (\<lambda>q. \<lparr>last_ts = lo, current_ts = hi, ExclusiveStartKey = LastEvaluatedKey q\<rparr>)
                    (p # ps))"
proof (induction ps arbitrary: p items sent)
  case Nil
  then show ?case by (subst paginate.simps) (auto split: option.splits)
next
  case (Cons q qs)
  from Cons.prems obtain k where k: "LastEvaluatedKey p = Some k"
    and q: "tbl \<lparr>last_ts = lo, current_ts = hi, ExclusiveStartKey = Some k\<rparr> = Inr q"
    and rest: "breaks tbl lo hi q qs e"
    by (auto split: option.splits)
  show ?case
    by (subst paginate.simps) (simp add: k q Cons.IH [OF rest])
qed

lemma paginate_bounds_aux:
  assumes "paginate tbl lo hi p items sent = Some y"
  shows "(\<forall>q\<in>set sent. last_ts q = lo \<and> current_ts q = hi) \<longrightarrow>
         (\<forall>q\<in>set (snd y). last_ts q = lo \<and> current_ts q = hi)"
proof (rule paginate.raw_induct
    [OF _ assms, where P = "\<lambda>tbl lo hi p items sent y.
        (\<forall>q\<in>set sent. last_ts q = lo \<and> current_ts q = hi) \<longrightarrow>
        (\<forall>q\<in>set (snd y). last_ts q = lo \<and> current_ts q = hi)"])
  fix pag :: "table \<Rightarrow> timestamp \<Rightarrow> timestamp \<Rightarrow> scan_response \<Rightarrow> row list \<Rightarrow> scan_request list
     \<Rightarrow> ((exn + row list) \<times> scan_request list) option"
  fix tbl lo hi response items sent y
  assume IH: "\<And>tbl lo hi response items sent y. pag tbl lo hi response items sent = Some y \<Longrightarrow>
        (\<forall>q\<in>set sent. last_ts q = lo \<and> current_ts q = hi) \<longrightarrow>
        (\<forall>q\<in>set (snd y). last_ts q = lo \<and> current_ts q = hi)"
  assume body: "(case LastEvaluatedKey response of None \<Rightarrow> Some (Inr items, sent)
      | Some k \<Rightarrow>
          case tbl \<lparr>last_ts = lo, current_ts = hi, ExclusiveStartKey = Some k\<rparr> of
          Inl e \<Rightarrow> Some (Inl e, sent @ [\<lparr>last_ts = lo, current_ts = hi, ExclusiveStartKey = Some k\<rparr>])
          | Inr response' \<Rightarrow>
              pag tbl lo hi response' (items @ get_Items response')
               (sent @ [\<lparr>last_ts = lo, current_ts = hi, ExclusiveStartKey = Some k\<rparr>])) = Some y"
  show "(\<forall>q\<in>set sent. last_ts q = lo \<and> current_ts q = hi) \<longrightarrow>
        (\<forall>q\<in>set (snd y). last_ts q = lo \<and> current_ts q = hi)"
  proof (cases "LastEvaluatedKey response")
    case None
    with body show ?thesis by auto
  next
    case (Some k)
    let ?req = "\<lparr>last_ts = lo, current_ts = hi, ExclusiveStartKey = Some k\<rparr>"
    show ?thesis
    proof (cases "tbl ?req")
      case (Inl e)
      with body Some show ?thesis by auto
    next
      case (Inr response')
      with body Some have "pag tbl lo hi response' (items @ get_Items response') (sent @ [?req]) = Some y"
        by simp
      from IH [OF this] show ?thesis by simp
    qed
  qed
qed

lemma paginate_bounds:
  "paginate tbl lo hi p items sent = Some (res, sent') \<Longrightarrow>
   \<forall>q\<in>set sent. last_ts q = lo \<and> current_ts q = hi \<Longrightarrow>
   \<forall>q\<in>set sent'. last_ts q = lo \<and> current_ts q = hi"
  using paginate_bounds_aux [of tbl lo hi p items sent "(res, sent')"] by simp

text \<open>The three ways a fetch ends.\<close>

lemma get_new_data_first_fails:
  assumes "tbl \<lparr>last_ts = window_start now0 r, current_ts = now1, ExclusiveStartKey = None\<rparr> = Inl e"
  shows "get_new_data tbl now0 now1 r =
     Some (scan_failed e (r\<lparr>last_read_timestamp := Some (window_start now0 r)\<rparr>)
             [(INFO, Searching_for_data (window_start now0 r) now1)]
             [\<lparr>last_ts = window_start now0 r, current_ts = now1, ExclusiveStartKey = None\<rparr>])"
  using assms by (simp add: get_new_data_def window_start_def Let_def)

lemma get_new_data_paginated:
  assumes "tbl \<lparr>last_ts = window_start now0 r, current_ts = now1, ExclusiveStartKey = None\<rparr> = Inr p"
  shows "get_new_data tbl now0 now1 r =
     (case paginate tbl (window_start now0 r) now1 p (get_Items p)
             [\<lparr>last_ts = window_start now0 r, current_ts = now1, ExclusiveStartKey = None\<rparr>] of
        None \<Rightarrow> None
      | Some (Inl e, sent) \<Rightarrow>
          Some (scan_failed e (r\<lparr>last_read_timestamp := Some (window_start now0 r)\<rparr>)
                  [(INFO, Searching_for_data (window_start now0 r) now1)] sent)
      | Some (Inr items, sent) \<Rightarrow>
          Some (Inr items, r\<lparr>last_read_timestamp := Some now1\<rparr>,
                [(INFO, Searching_for_data (window_start now0 r) now1),
                 (INFO, Retrieved_new_items (length items))]
                  @ (if items \<noteq> [] then [(INFO, Sample_timestamps (sample_timestamps items))] else []),
                sent))"
proof (cases "last_read_timestamp r")
  case None
  with assms show ?thesis
    by (simp add: get_new_data_def window_start_def Let_def
        split: option.splits sum.splits prod.splits)
next
  case (Some t)
  with assms show ?thesis
    by (simp add: get_new_data_def window_start_def Let_def
        split: option.splits sum.splits prod.splits)
qed

lemma get_new_data_watermark:
  assumes "get_new_data tbl now0 now1 r = Some (res, r', lg, sent)"
  shows "last_read_timestamp r' = Some (window_start now0 r) \<or> last_read_timestamp r' = Some now1"
proof (cases "tbl \<lparr>last_ts = window_start now0 r, current_ts = now1, ExclusiveStartKey = None\<rparr>")
  case (Inl e)
  from assms show ?thesis
    unfolding get_new_data_first_fails [of tbl now0 r now1, OF Inl]
    by (auto simp add: scan_failed_def split: if_splits)
next
  case (Inr p)
  from assms show ?thesis
    unfolding get_new_data_paginated [of tbl now0 r now1, OF Inr]
    by (auto simp add: scan_failed_def split: option.splits prod.splits sum.splits if_splits)
qed

lemma get_new_data_bounds:
  assumes "get_new_data tbl now0 now1 r = Some (res, r', lg, sent)"
  shows "\<forall>q\<in>set sent. last_ts q = window_start now0 r \<and> current_ts q = now1"
proof (cases "tbl \<lparr>last_ts = window_start now0 r, current_ts = now1, ExclusiveStartKey = None\<rparr>")
  case (Inl e)
  from assms show ?thesis
    unfolding get_new_data_first_fails [of tbl now0 r now1, OF Inl] by (auto simp add: scan_failed_def split: if_splits)
next
  case (Inr p)
  let ?first = "\<lparr>last_ts = window_start now0 r, current_ts = now1, ExclusiveStartKey = None\<rparr>"
  from assms obtain y where y: "paginate tbl (window_start now0 r) now1 p (get_Items p) [?first] = Some y"
    unfolding get_new_data_paginated [of tbl now0 r now1, OF Inr] by (auto split: option.splits)
  obtain res' sent' where y': "y = (res', sent')" by (cases y)
  from assms have "sent = sent'"
    unfolding get_new_data_paginated [of tbl now0 r now1, OF Inr] y y'
    by (cases res') (auto simp add: scan_failed_def split: if_splits)
  moreover have "\<forall>q\<in>set sent'. last_ts q = window_start now0 r \<and> current_ts q = now1"
    using paginate_bounds [OF y [unfolded y']] by simp
  ultimately show ?thesis by simp
qed

lemma wm_le_trans: "wm_le a b \<Longrightarrow> wm_le b c \<Longrightarrow> wm_le a c"
  by (cases a; cases b; cases c) simp_all

lemma run_fetches_sorted:
  "wm_le (last_read_timestamp r) l \<Longrightarrow> steady l cs \<Longrightarrow> run_fetches cs r = Some ws \<Longrightarrow>
   (\<forall>x\<in>set ws. wm_le (last_read_timestamp r) x) \<and> sorted_wrt wm_le ws"
proof (induction cs arbitrary: r l ws)
  case Nil
  then show ?case by simp
next
  case (Cons c cs)
  obtain tbl now0 now1 where c: "c = (tbl, now0, now1)" by (cases c)
  from Cons.prems(3) obtain res r' lg sent ws'
    where step: "get_new_data tbl now0 now1 r = Some (res, r', lg, sent)"
      and rest: "run_fetches cs r' = Some ws'"
      and ws: "ws = last_read_timestamp r' # ws'"
    by (auto simp add: c split: option.splits)
  from Cons.prems(2) have clock: "case l of None \<Rightarrow> True | Some t \<Rightarrow> t \<le> now0" "now0 \<le> now1"
    and later: "steady (Some now1) cs"
    by (simp_all add: c)
  have start: "window_start now0 r \<le> now1"
    using Cons.prems(1) clock
    by (cases "last_read_timestamp r"; cases l) (simp_all add: window_start_def)
  have keeps: "wm_le (last_read_timestamp r) (Some (window_start now0 r))"
    by (cases "last_read_timestamp r") (simp_all add: window_start_def)
  have up: "wm_le (last_read_timestamp r) (last_read_timestamp r')"
    and below: "wm_le (last_read_timestamp r') (Some now1)"
    using get_new_data_watermark [OF step] start keeps wm_le_trans [OF keeps, of "Some now1"]
    by auto
  from Cons.IH [OF below later rest]
  have ih: "\<forall>x\<in>set ws'. wm_le (last_read_timestamp r') x" "sorted_wrt wm_le ws'"
    by simp_all
  from ih up show ?case
    by (auto simp add: ws intro: wm_le_trans)
qed

lemma get_new_data_follows:
  assumes first: "tbl \<lparr>last_ts = window_start now0 r, current_ts = now1, ExclusiveStartKey = None\<rparr> = Inr p"
    and chain: "follows tbl (window_start now0 r) now1 p ps"
  shows "get_new_data tbl now0 now1 r =
     Some (Inr (concat (map get_Items (p # ps))),
           r\<lparr>last_read_timestamp := Some now1\<rparr>,
           success_log (window_start now0 r) now1 (concat (map get_Items (p # ps))),
           requests_for (window_start now0 r) now1 (butlast (p # ps)))"
  unfolding get_new_data_paginated [of tbl now0 r now1, OF first] paginate_follows [OF chain]
  by (simp add: success_log_def requests_for_def)

lemma get_new_data_breaks:
  assumes first: "tbl \<lparr>last_ts = window_start now0 r, current_ts = now1, ExclusiveStartKey = None\<rparr> = Inr p"
    and chain: "breaks tbl (window_start now0 r) now1 p ps e"
  shows "get_new_data tbl now0 now1 r =
     Some (scan_failed e (r\<lparr>last_read_timestamp := Some (window_start now0 r)\<rparr>)
             [(INFO, Searching_for_data (window_start now0 r) now1)]
             (requests_for (window_start now0 r) now1 (p # ps)))"
  unfolding get_new_data_paginated [of tbl now0 r now1, OF first] paginate_breaks [OF chain]
  by (simp add: requests_for_def)

lemma fetch_quiet:
  "get_new_data quiet_table n0 n1 r =
     Some (Inr [], r\<lparr>last_read_timestamp := Some n1\<rparr>,
           [(INFO, Searching_for_data (window_start n0 r) n1), (INFO, Retrieved_new_items 0)],
           [\<lparr>last_ts = window_start n0 r, current_ts = n1, ExclusiveStartKey = None\<rparr>])"
  using get_new_data_follows [of quiet_table n0 r n1 "\<lparr>Items = Some [], LastEvaluatedKey = None\<rparr>" "[]"]
  by (simp add: quiet_table_def get_Items_def success_log_def requests_for_def)

lemma fetch_three_pages:
  "get_new_data three_pages n0 n1 r =
     Some (Inr [[(''id'', Num ''1'')], [(''id'', Num ''2'')], [(''id'', Num ''3'')], [(''id'', Num ''4'')]],
           r\<lparr>last_read_timestamp := Some n1\<rparr>,
           [(INFO, Searching_for_data (window_start n0 r) n1), (INFO, Retrieved_new_items 4),
            (INFO, Sample_timestamps [Str ''N/A'', Str ''N/A'', Str ''N/A''])],
           [\<lparr>last_ts = window_start n0 r, current_ts = n1, ExclusiveStartKey = None\<rparr>,
            \<lparr>last_ts = window_start n0 r, current_ts = n1, ExclusiveStartKey = Some 1\<rparr>,
            \<lparr>last_ts = window_start n0 r, current_ts = n1, ExclusiveStartKey = Some 2\<rparr>])"
  using get_new_data_follows [of three_pages n0 r n1
      "\<lparr>Items = Some [[(''id'', Num ''1'')]], LastEvaluatedKey = Some 1\<rparr>"
      "[\<lparr>Items = Some [[(''id'', Num ''2'')], [(''id'', Num ''3'')]], LastEvaluatedKey = Some 2\<rparr>,
        \<lparr>Items = Some [[(''id'', Num ''4'')]], LastEvaluatedKey = None\<rparr>]"]
  by (simp add: three_pages_def get_Items_def success_log_def requests_for_def sample_timestamps_def)

lemma fetch_failing:
  "get_new_data failing_table n0 n1 r =
     Some (Inr [], r\<lparr>last_read_timestamp := Some (window_start n0 r)\<rparr>,
           [(INFO, Searching_for_data (window_start n0 r) n1),
            (ERROR, Error_reading_from_DynamoDB ClientError)],
           [\<lparr>last_ts = window_start n0 r, current_ts = n1, ExclusiveStartKey = None\<rparr>,
            \<lparr>last_ts = window_start n0 r, current_ts = n1, ExclusiveStartKey = Some 1\<rparr>,
            \<lparr>last_ts = window_start n0 r, current_ts = n1, ExclusiveStartKey = Some 2\<rparr>])"
  using get_new_data_breaks [of failing_table n0 r n1
      "\<lparr>Items = Some [[(''id'', Num ''1'')]], LastEvaluatedKey = Some 1\<rparr>"
      "[\<lparr>Items = Some [[(''id'', Num ''2'')]], LastEvaluatedKey = Some 2\<rparr>]" ClientError]
  by (simp add: failing_table_def scan_failed_def requests_for_def)

text \<open>
  C8. When the first scan and every scan along the chain of continuation keys succeed,
  and the chain ends with a page that carries no key, the fetch returns: its result is
  the rows of all pages, in page order, in one list; it has sent one request for the
  first page and one for each key handed out, in that order.
\<close>

theorem fetch_concatenates_pages:
  assumes "tbl \<lparr>last_ts = window_start now0 r, current_ts = now1, ExclusiveStartKey = None\<rparr> = Inr p"
    and "follows tbl (window_start now0 r) now1 p ps"
  shows "get_new_data tbl now0 now1 r =
     Some (Inr (concat (map get_Items (p # ps))),
           r\<lparr>last_read_timestamp := Some now1\<rparr>,
           success_log (window_start now0 r) now1 (concat (map get_Items (p # ps))),
           requests_for (window_start now0 r) now1 (butlast (p # ps)))"
  using assms by (rule get_new_data_follows)

theorem fetch_concatenates_pages_witness:
  "get_new_data three_pages 0 1060 \<lparr>last_read_timestamp = Some 1000\<rparr> =
     Some (Inr [[(''id'', Num ''1'')], [(''id'', Num ''2'')], [(''id'', Num ''3'')], [(''id'', Num ''4'')]],
           \<lparr>last_read_timestamp = Some 1060\<rparr>,
           success_log 1000 1060
             [[(''id'', Num ''1'')], [(''id'', Num ''2'')], [(''id'', Num ''3'')], [(''id'', Num ''4'')]],
           [\<lparr>last_ts = 1000, current_ts = 1060, ExclusiveStartKey = None\<rparr>,
            \<lparr>last_ts = 1000, current_ts = 1060, ExclusiveStartKey = Some 1\<rparr>,
            \<lparr>last_ts = 1000, current_ts = 1060, ExclusiveStartKey = Some 2\<rparr>])"
  using fetch_concatenates_pages [of three_pages 0 "\<lparr>last_read_timestamp = Some 1000\<rparr>" 1060
      "\<lparr>Items = Some [[(''id'', Num ''1'')]], LastEvaluatedKey = Some 1\<rparr>"
      "[\<lparr>Items = Some [[(''id'', Num ''2'')], [(''id'', Num ''3'')]], LastEvaluatedKey = Some 2\<rparr>,
        \<lparr>Items = Some [[(''id'', Num ''4'')]], LastEvaluatedKey = None\<rparr>]"]
  by (simp add: three_pages_def get_Items_def requests_for_def window_start_def)

section \<open>The watermark over a run of fetch cycles\<close>

text \<open>
  C2, as the code has it. The fetch stores the clock reading it took, whatever it is, so
  the stored watermark follows the clock. Over a run of fetch cycles in which no clock
  reading is earlier than the one before (nor than a watermark stored at the start),
  the stored watermark never decreases. Every request of a fetch that returns carries
  the watermark stored before it (an hour before the first reading, on the first call)
  as its exclusive lower bound and the reading taken at its start as its inclusive upper
  bound. A fetch whose scans all succeed stores that reading, whatever the rows hold.
\<close>

theorem watermark_with_steady_clock:
  "(steady (last_read_timestamp r) cs \<and> run_fetches cs r = Some ws
      \<longrightarrow> sorted_wrt wm_le (last_read_timestamp r # ws))
   \<and> (get_new_data tbl now0 now1 r = Some (res, r', lg, sent)
      \<longrightarrow> (\<forall>q\<in>set sent. last_ts q = window_start now0 r \<and> current_ts q = now1))
   \<and> (tbl \<lparr>last_ts = window_start now0 r, current_ts = now1, ExclusiveStartKey = None\<rparr> = Inr p
       \<and> follows tbl (window_start now0 r) now1 p ps
      \<longrightarrow> (\<exists>items lg sent. get_new_data tbl now0 now1 r =
             Some (Inr items, r\<lparr>last_read_timestamp := Some now1\<rparr>, lg, sent)))"
proof (intro conjI impI)
  assume a: "steady (last_read_timestamp r) cs \<and> run_fetches cs r = Some ws"
  then have s: "steady (last_read_timestamp r) cs" and rf: "run_fetches cs r = Some ws"
    by simp_all
  have "wm_le (last_read_timestamp r) (last_read_timestamp r)"
    by (cases "last_read_timestamp r") simp_all
  from run_fetches_sorted [OF this s rf]
  show "sorted_wrt wm_le (last_read_timestamp r # ws)" by simp
next
  assume "get_new_data tbl now0 now1 r = Some (res, r', lg, sent)"
  then show "\<forall>q\<in>set sent. last_ts q = window_start now0 r \<and> current_ts q = now1"
    by (rule get_new_data_bounds)
next
  assume "tbl \<lparr>last_ts = window_start now0 r, current_ts = now1, ExclusiveStartKey = None\<rparr> = Inr p
       \<and> follows tbl (window_start now0 r) now1 p ps"
  then have "get_new_data tbl now0 now1 r =
     Some (Inr (concat (map get_Items (p # ps))),
           r\<lparr>last_read_timestamp := Some now1\<rparr>,
           success_log (window_start now0 r) now1 (concat (map get_Items (p # ps))),
           requests_for (window_start now0 r) now1 (butlast (p # ps)))"
    by (intro get_new_data_follows) simp_all
  then show "\<exists>items lg sent. get_new_data tbl now0 now1 r =
             Some (Inr items, r\<lparr>last_read_timestamp := Some now1\<rparr>, lg, sent)"
    by blast
qed

lemma run_three_cycles:
  "run_fetches [(three_pages, 1000, 1000), (failing_table, 1060, 1060), (quiet_table, 1120, 1120)]
      \<lparr>last_read_timestamp = None\<rparr> = Some [Some 1000, Some 1000, Some 1120]"
  by (simp add: fetch_three_pages fetch_failing fetch_quiet window_start_def)

theorem watermark_with_steady_clock_witness:
  "steady None [(three_pages, 1000, 1000), (failing_table, 1060, 1060), (quiet_table, 1120, 1120)]
   \<and> run_fetches [(three_pages, 1000, 1000), (failing_table, 1060, 1060), (quiet_table, 1120, 1120)]
        \<lparr>last_read_timestamp = None\<rparr> = Some [Some 1000, Some 1000, Some 1120]
   \<and> sorted_wrt wm_le [None, Some 1000, Some 1000, Some 1120]
   \<and> map (\<lambda>q. (last_ts q, current_ts q))
        (snd (snd (snd (the (get_new_data three_pages 1000 1000 \<lparr>last_read_timestamp = None\<rparr>)))))
       = [(-2600, 1000), (-2600, 1000), (-2600, 1000)]
   \<and> (\<exists>items lg sent. get_new_data three_pages 1000 1000 \<lparr>last_read_timestamp = None\<rparr> =
         Some (Inr items, \<lparr>last_read_timestamp = Some 1000\<rparr>, lg, sent))"
proof -
  let ?cs = "[(three_pages, 1000, 1000), (failing_table, 1060, 1060), (quiet_table, 1120, 1120)]"
  let ?r = "\<lparr>last_read_timestamp = None\<rparr>"
  let ?p = "\<lparr>Items = Some [[(''id'', Num ''1'')]], LastEvaluatedKey = Some 1\<rparr>"
  let ?ps = "[\<lparr>Items = Some [[(''id'', Num ''2'')], [(''id'', Num ''3'')]], LastEvaluatedKey = Some 2\<rparr>,
        \<lparr>Items = Some [[(''id'', Num ''4'')]], LastEvaluatedKey = None\<rparr>]"
  have w: "window_start 1000 ?r = -2600" by (simp add: window_start_def)
  have st: "steady (last_read_timestamp ?r) ?cs" by simp
  have fetch: "get_new_data three_pages 1000 1000 ?r =
      Some (Inr [[(''id'', Num ''1'')], [(''id'', Num ''2'')], [(''id'', Num ''3'')], [(''id'', Num ''4'')]],
           \<lparr>last_read_timestamp = Some 1000\<rparr>,
           [(INFO, Searching_for_data (-2600) 1000), (INFO, Retrieved_new_items 4),
            (INFO, Sample_timestamps [Str ''N/A'', Str ''N/A'', Str ''N/A''])],
           [\<lparr>last_ts = -2600, current_ts = 1000, ExclusiveStartKey = None\<rparr>,
            \<lparr>last_ts = -2600, current_ts = 1000, ExclusiveStartKey = Some 1\<rparr>,
            \<lparr>last_ts = -2600, current_ts = 1000, ExclusiveStartKey = Some 2\<rparr>])"
    by (simp add: fetch_three_pages w)
  have chain: "three_pages \<lparr>last_ts = window_start 1000 ?r, current_ts = 1000, ExclusiveStartKey = None\<rparr> = Inr ?p
       \<and> follows three_pages (window_start 1000 ?r) 1000 ?p ?ps"
    by (simp add: three_pages_def)
  note t = watermark_with_steady_clock [of ?r ?cs "[Some 1000, Some 1000, Some 1120]" three_pages 1000 1000
      _ _ _ _ ?p ?ps]
  from t st run_three_cycles have "sorted_wrt wm_le (last_read_timestamp ?r # [Some 1000, Some 1000, Some 1120])"
    by blast
  then have s: "sorted_wrt wm_le [None, Some 1000, Some 1000, Some 1120]" by simp
  from t fetch have "\<forall>q\<in>set [\<lparr>last_ts = -2600, current_ts = 1000, ExclusiveStartKey = None\<rparr>,
            \<lparr>last_ts = -2600, current_ts = 1000, ExclusiveStartKey = Some 1\<rparr>,
            \<lparr>last_ts = -2600, current_ts = 1000, ExclusiveStartKey = Some 2\<rparr>].
        last_ts q = window_start 1000 ?r \<and> current_ts q = 1000"
    by blast
  then have b: "map (\<lambda>q. (last_ts q, current_ts q))
        (snd (snd (snd (the (get_new_data three_pages 1000 1000 ?r)))))
       = [(-2600, 1000), (-2600, 1000), (-2600, 1000)]"
    unfolding fetch by (simp add: w)
  from t chain have "\<exists>items lg sent. get_new_data three_pages 1000 1000 ?r =
         Some (Inr items, ?r\<lparr>last_read_timestamp := Some 1000\<rparr>, lg, sent)"
    by blast
  then have c: "\<exists>items lg sent. get_new_data three_pages 1000 1000 ?r =
         Some (Inr items, \<lparr>last_read_timestamp = Some 1000\<rparr>, lg, sent)"
    by simp
  from st run_three_cycles s b c show ?thesis by simp
qed

text \<open>
  With a clock that is set back between two cycles, the second fetch stores the earlier
  reading: the watermark decreases.
\<close>

theorem watermark_clock_set_back_counterexample:
  "run_fetches [(quiet_table, 10000, 10000), (quiet_table, 5000, 5000)] \<lparr>last_read_timestamp = None\<rparr>
     = Some [Some 10000, Some 5000]
   \<and> \<not> sorted_wrt wm_le [None, Some 10000, Some 5000]"
  by (simp add: fetch_quiet)

section \<open>The rendered table\<close>

lemma first_seen_set: "set (first_seen seen ks) = set seen \<union> set ks"
  by (induction ks arbitrary: seen) auto

lemma first_seen_distinct: "distinct seen \<Longrightarrow> distinct (first_seen seen ks)"
  by (induction ks arbitrary: seen) auto

















section \<open>The uploader\<close>

lemma find_cached:
  "file_cache u f = Some i \<Longrightarrow> find_existing_file f u d = (Some i, u, d, [])"
  by (simp add: find_existing_file_def)

lemma find_fault:
  "file_cache u f = None \<Longrightarrow> faults d (length (journal d)) = Some e \<Longrightarrow>
   find_existing_file f u d =
     (None, u, d\<lparr>journal := journal d @ [Files_list f (query_parent u) (query_drive u)]\<rparr>,
      [(ERROR, Error_searching_for_existing_file f e)])"
  by (simp add: find_existing_file_def files_list_def)

lemma find_absent:
  "file_cache u f = None \<Longrightarrow> faults d (length (journal d)) = None \<Longrightarrow> named u f d = [] \<Longrightarrow>
   find_existing_file f u d =
     (None, u, d\<lparr>journal := journal d @ [Files_list f (query_parent u) (query_drive u)]\<rparr>, [])"
  by (simp add: find_existing_file_def files_list_def named_def)

lemma find_present:
  "file_cache u f = None \<Longrightarrow> faults d (length (journal d)) = None \<Longrightarrow> named u f d = x # xs \<Longrightarrow>
   find_existing_file f u d =
     (Some (file_id x), u\<lparr>file_cache := (file_cache u)(f \<mapsto> file_id x)\<rparr>,
      d\<lparr>journal := journal d @ [Files_list f (query_parent u) (query_drive u)]\<rparr>, [])"
  by (simp add: find_existing_file_def files_list_def named_def)

lemma update_ok:
  "faults d (length (journal d)) = None \<Longrightarrow> i \<in> file_id ` set (objects d) \<Longrightarrow>
   files_update i m s d =
     (Inr i, d\<lparr>journal := journal d @ [Files_update i m s],
               objects := map (\<lambda>x. if file_id x = i then x\<lparr>media := m\<rparr> else x) (objects d)\<rparr>)"
  by (simp add: files_update_def)

lemma update_fault:
  "faults d (length (journal d)) = Some e \<Longrightarrow>
   files_update i m s d = (Inl e, d\<lparr>journal := journal d @ [Files_update i m s]\<rparr>)"
  by (simp add: files_update_def)

lemma create_ok:
  "faults d (length (journal d)) = None \<Longrightarrow>
   files_create n ps m s d =
     (Inr (fresh_id (objects d)),
      d\<lparr>journal := journal d @ [Files_create n ps m s],
        objects := objects d @ [\<lparr>file_id = fresh_id (objects d), file_name = n, parents = ps,
                                 trashed = False, media = m\<rparr>]\<rparr>)"
  by (simp add: files_create_def)

lemma create_fault:
  "faults d (length (journal d)) = Some e \<Longrightarrow>
   files_create n ps m s d = (Inl e, d\<lparr>journal := journal d @ [Files_create n ps m s]\<rparr>)"
  by (simp add: files_create_def)

lemma matches_media [simp]: "matches n p (x\<lparr>media := m\<rparr>) = matches n p x"
  by (simp add: matches_def split: option.splits)

lemma named_after_update:
  "named u f (d\<lparr>journal := js,
               objects := map (\<lambda>x. if file_id x = i then x\<lparr>media := m\<rparr> else x) (objects d)\<rparr>)
   = map (\<lambda>x. if file_id x = i then x\<lparr>media := m\<rparr> else x) (named u f d)"
  by (simp add: named_def filter_map o_def cong: filter_cong)

lemma created_matches:
  "matches f (query_parent u)
     \<lparr>file_id = i, file_name = f, parents = new_file_parents u, trashed = False, media = m\<rparr>"
  by (cases "folder_id u") (auto simp add: matches_def query_parent_def new_file_parents_def)

lemma named_after_create:
  "named u f (d\<lparr>journal := js,
               objects := objects d @ [\<lparr>file_id = i, file_name = f, parents = new_file_parents u,
                                        trashed = False, media = m\<rparr>]\<rparr>)
   = named u f d @ [\<lparr>file_id = i, file_name = f, parents = new_file_parents u,
                     trashed = False, media = m\<rparr>]"
  by (simp add: named_def created_matches)

lemma named_journal [simp]: "named u f (d\<lparr>journal := js\<rparr>) = named u f d"
  by (simp add: named_def)

lemma named_cache [simp]: "named (u\<lparr>file_cache := c\<rparr>) f d = named u f d"
  by (simp add: named_def query_parent_def)

lemma named_subset: "x \<in> set (named u f d) \<Longrightarrow> x \<in> set (objects d)"
  by (simp add: named_def)

lemma upload_cached_ok:
  assumes "file_cache u f = Some i" "faults d (length (journal d)) = None"
    "i \<in> file_id ` set (objects d)"
  shows "upload_or_update_csv c f u d =
     (Some i, u,
      d\<lparr>journal := journal d @ [Files_update i c (truthy (shared_drive_id u))],
        objects := map (\<lambda>x. if file_id x = i then x\<lparr>media := c\<rparr> else x) (objects d)\<rparr>,
      [(INFO, Successfully_updated f i)])"
  using assms by (simp add: upload_or_update_csv_def find_cached update_ok)

lemma upload_cached_fault:
  assumes "file_cache u f = Some i" "faults d (length (journal d)) = Some e"
  shows "upload_or_update_csv c f u d =
     (None, u, d\<lparr>journal := journal d @ [Files_update i c (truthy (shared_drive_id u))]\<rparr>,
      [(ERROR, Error_uploading_updating f e)])"
  using assms by (simp add: upload_or_update_csv_def find_cached update_fault)

lemma upload_absent_ok:
  assumes "file_cache u f = None" "faults d (length (journal d)) = None"
    "faults d (Suc (length (journal d))) = None" "named u f d = []"
  shows "upload_or_update_csv c f u d =
     (Some (fresh_id (objects d)),
      u\<lparr>file_cache := (file_cache u)(f \<mapsto> fresh_id (objects d))\<rparr>,
      d\<lparr>journal := journal d @ [Files_list f (query_parent u) (query_drive u),
                                 Files_create f (new_file_parents u) c (truthy (shared_drive_id u))],
        objects := objects d @ [\<lparr>file_id = fresh_id (objects d), file_name = f,
                                 parents = new_file_parents u, trashed = False, media = c\<rparr>]\<rparr>,
      [(INFO, Successfully_uploaded_new f (fresh_id (objects d)))])"
  using assms by (simp add: upload_or_update_csv_def find_absent create_ok)

lemma upload_absent_fault:
  assumes "file_cache u f = None" "faults d (length (journal d)) = None"
    "faults d (Suc (length (journal d))) = Some e" "named u f d = []"
  shows "upload_or_update_csv c f u d =
     (None, u,
      d\<lparr>journal := journal d @ [Files_list f (query_parent u) (query_drive u),
                                 Files_create f (new_file_parents u) c (truthy (shared_drive_id u))]\<rparr>,
      [(ERROR, Error_uploading_updating f e)])"
  using assms by (simp add: upload_or_update_csv_def find_absent create_fault)

lemma upload_present_ok:
  assumes "file_cache u f = None" "faults d (length (journal d)) = None"
    "faults d (Suc (length (journal d))) = None" "named u f d = x # xs"
  shows "upload_or_update_csv c f u d =
     (Some (file_id x),
      u\<lparr>file_cache := (file_cache u)(f \<mapsto> file_id x)\<rparr>,
      d\<lparr>journal := journal d @ [Files_list f (query_parent u) (query_drive u),
                                 Files_update (file_id x) c (truthy (shared_drive_id u))],
        objects := map (\<lambda>y. if file_id y = file_id x then y\<lparr>media := c\<rparr> else y) (objects d)\<rparr>,
      [(INFO, Successfully_updated f (file_id x))])"
proof -
  have "x \<in> set (objects d)" using assms(4) named_subset [of x u f d] by simp
  then have "file_id x \<in> file_id ` set (objects d)" by simp
  with assms show ?thesis
    by (simp add: upload_or_update_csv_def find_present update_ok)
qed

lemma upload_lookup_fault_ok:
  assumes "file_cache u f = None" "faults d (length (journal d)) = Some e"
    "faults d (Suc (length (journal d))) = None"
  shows "upload_or_update_csv c f u d =
     (Some (fresh_id (objects d)),
      u\<lparr>file_cache := (file_cache u)(f \<mapsto> fresh_id (objects d))\<rparr>,
      d\<lparr>journal := journal d @ [Files_list f (query_parent u) (query_drive u),
                                 Files_create f (new_file_parents u) c (truthy (shared_drive_id u))],
        objects := objects d @ [\<lparr>file_id = fresh_id (objects d), file_name = f,
                                 parents = new_file_parents u, trashed = False, media = c\<rparr>]\<rparr>,
      [(ERROR, Error_searching_for_existing_file f e),
       (INFO, Successfully_uploaded_new f (fresh_id (objects d)))])"
  using assms by (simp add: upload_or_update_csv_def find_fault create_ok)

lemma ids_after_update:
  "file_id ` set (map (\<lambda>y. if file_id y = i then y\<lparr>media := c\<rparr> else y) xs) = file_id ` set xs"
  by (induction xs) auto

lemma find_existing_file_cache:
  "find_existing_file f u d = (found, u', d', lg) \<Longrightarrow>
   (case found of Some i \<Rightarrow> file_cache u' f = Some i | None \<Rightarrow> u' = u)"
  by (auto simp add: find_existing_file_def files_list_def Let_def
      split: option.splits sum.splits list.splits)

text \<open>
  C1, as the code has it. No call to the store fails; the name is either not in the
  cache, with at most one object in the store that the lookup selects for it, or in the
  cache with the identifier of the one object that the lookup selects (the state every
  upload that succeeds leaves). Then two uploads under that name with two contents leave
  exactly one such object, its content that of the second upload, and both uploads
  return its identifier. After the first upload the cache holds that identifier, also
  when the upload had to create the object, so the second upload asks nothing and sends
  one request, the update. The lookup caches an identifier that it finds; when it finds
  none, it leaves the cache unchanged.
\<close>

theorem sync_twice_one_object:
  assumes nofault: "\<forall>n. faults d n = None"
    and cache: "case file_cache u f of
                  None \<Rightarrow> length (named u f d) \<le> 1
                | Some i \<Rightarrow> map file_id (named u f d) = [i]"
    and first: "upload_or_update_csv c1 f u d = (i1, u1, d1, lg1)"
    and second: "upload_or_update_csv c2 f u1 d1 = (i2, u2, d2, lg2)"
  shows "(\<exists>x. named u f d2 = [x] \<and> media x = c2 \<and> i1 = Some (file_id x) \<and> i2 = Some (file_id x)
            \<and> file_cache u1 f = Some (file_id x) \<and> file_cache u2 f = Some (file_id x)
            \<and> journal d2 = journal d1 @ [Files_update (file_id x) c2 (truthy (shared_drive_id u))])
       \<and> (\<forall>found u' d' lg. find_existing_file f u d = (found, u', d', lg) \<longrightarrow>
             (case found of Some i \<Rightarrow> file_cache u' f = Some i | None \<Rightarrow> u' = u))"
proof
  show "\<forall>found u' d' lg. find_existing_file f u d = (found, u', d', lg) \<longrightarrow>
             (case found of Some i \<Rightarrow> file_cache u' f = Some i | None \<Rightarrow> u' = u)"
    using find_existing_file_cache by blast
next
  have f0: "faults d (length (journal d)) = None" "faults d (Suc (length (journal d))) = None"
    using nofault by simp_all
  have second_upload:
    "\<exists>x. named u f d2 = [x] \<and> media x = c2 \<and> i1 = Some (file_id x) \<and> i2 = Some (file_id x)
          \<and> file_cache u1 f = Some (file_id x) \<and> file_cache u2 f = Some (file_id x)
          \<and> journal d2 = journal d1 @ [Files_update (file_id x) c2 (truthy (shared_drive_id u))]"
    if r1: "i1 = Some (file_id y)" and cached: "file_cache u1 f = Some (file_id y)"
      and n1: "named u f d1 = [y]" and fl: "faults d1 = faults d"
      and sd: "shared_drive_id u1 = shared_drive_id u"
    for y
  proof -
    have f1: "faults d1 (length (journal d1)) = None" using nofault fl by simp
    have "y \<in> set (objects d1)" using n1 named_subset [of y u f d1] by simp
    then have there: "file_id y \<in> file_id ` set (objects d1)" by simp
    from second upload_cached_ok [OF cached f1 there, of c2]
    have r2: "i2 = Some (file_id y)" "u2 = u1"
      "d2 = d1\<lparr>journal := journal d1 @ [Files_update (file_id y) c2 (truthy (shared_drive_id u1))],
              objects := map (\<lambda>x. if file_id x = file_id y then x\<lparr>media := c2\<rparr> else x) (objects d1)\<rparr>"
      by auto
    have n2: "named u f d2 = [y\<lparr>media := c2\<rparr>]"
      unfolding r2 named_after_update n1 by simp
    have j2: "journal d2 = journal d1 @ [Files_update (file_id y) c2 (truthy (shared_drive_id u))]"
      by (simp add: r2 sd)
    from n2 j2 r1 r2 cached show ?thesis by simp
  qed
  show "\<exists>x. named u f d2 = [x] \<and> media x = c2 \<and> i1 = Some (file_id x) \<and> i2 = Some (file_id x)
            \<and> file_cache u1 f = Some (file_id x) \<and> file_cache u2 f = Some (file_id x)
            \<and> journal d2 = journal d1 @ [Files_update (file_id x) c2 (truthy (shared_drive_id u))]"
  proof (cases "file_cache u f")
    case (Some i)
    with cache obtain x where nx: "named u f d = [x]" and ix: "file_id x = i"
      by (auto simp add: map_eq_Cons_conv)
    have "x \<in> set (objects d)" using nx named_subset [of x u f d] by simp
    then have there: "i \<in> file_id ` set (objects d)" using ix by auto
    from first upload_cached_ok [OF Some f0(1) there, of c1]
    have r1: "i1 = Some i" "u1 = u"
      "d1 = d\<lparr>journal := journal d @ [Files_update i c1 (truthy (shared_drive_id u))],
              objects := map (\<lambda>y. if file_id y = i then y\<lparr>media := c1\<rparr> else y) (objects d)\<rparr>"
      by auto
    have n1: "named u f d1 = [x\<lparr>media := c1\<rparr>]"
      unfolding r1 named_after_update nx using ix by simp
    show ?thesis
      by (rule second_upload [of "x\<lparr>media := c1\<rparr>"]) (simp_all add: r1 ix Some n1 [unfolded r1])
  next
    case None
    note uncached = None
    with cache have atmost: "length (named u f d) \<le> 1" by simp
    show ?thesis
    proof (cases "named u f d")
      case Nil
      let ?i = "fresh_id (objects d)"
      let ?new = "\<lparr>file_id = ?i, file_name = f, parents = new_file_parents u,
                     trashed = False, media = c1\<rparr>"
      from first upload_absent_ok [OF uncached f0 Nil, of c1]
      have r1: "i1 = Some ?i" "u1 = u\<lparr>file_cache := (file_cache u)(f \<mapsto> ?i)\<rparr>"
        "d1 = d\<lparr>journal := journal d @ [Files_list f (query_parent u) (query_drive u),
                                 Files_create f (new_file_parents u) c1 (truthy (shared_drive_id u))],
                objects := objects d @ [?new]\<rparr>"
        by auto
      have n1: "named u f d1 = [?new]"
        unfolding r1 using named_after_create [where u = u and f = f and d = d and i = "?i" and m = c1] Nil
        by simp
      show ?thesis
        by (rule second_upload [of ?new]) (simp_all add: r1 n1 [unfolded r1])
    next
      case (Cons x xs)
      with atmost have xs: "xs = []" by simp
      let ?i = "file_id x"
      from first upload_present_ok [OF uncached f0 Cons, of c1]
      have r1: "i1 = Some ?i" "u1 = u\<lparr>file_cache := (file_cache u)(f \<mapsto> ?i)\<rparr>"
        "d1 = d\<lparr>journal := journal d @ [Files_list f (query_parent u) (query_drive u),
                                 Files_update ?i c1 (truthy (shared_drive_id u))],
                objects := map (\<lambda>y. if file_id y = ?i then y\<lparr>media := c1\<rparr> else y) (objects d)\<rparr>"
        by auto
      have n1: "named u f d1 = [x\<lparr>media := c1\<rparr>]"
        unfolding r1 named_after_update Cons xs by simp
      show ?thesis
        by (rule second_upload [of "x\<lparr>media := c1\<rparr>"]) (simp_all add: r1 n1 [unfolded r1])
    qed
  qed
qed

text \<open>
  Two runs of two uploads: into an empty store with an empty cache, where the first
  upload creates the object, and with the name already cached.
\<close>

theorem sync_twice_one_object_witness:
  "(\<exists>x. named u_ex ''x.csv''
          (fst (snd (snd (upload_or_update_csv ''a\<newline>1\<newline>2\<newline>'' ''x.csv''
             (fst (snd (upload_or_update_csv ''a\<newline>1\<newline>'' ''x.csv'' u_ex d_empty)))
             (fst (snd (snd (upload_or_update_csv ''a\<newline>1\<newline>'' ''x.csv'' u_ex d_empty)))))))) = [x]
        \<and> media x = ''a\<newline>1\<newline>2\<newline>'')
   \<and> file_cache (fst (snd (upload_or_update_csv ''a\<newline>1\<newline>'' ''x.csv'' u_ex d_empty))) ''x.csv''
       = Some 1
   \<and> journal (fst (snd (snd (upload_or_update_csv ''a\<newline>1\<newline>2\<newline>'' ''x.csv''
             (fst (snd (upload_or_update_csv ''a\<newline>1\<newline>'' ''x.csv'' u_ex d_empty)))
             (fst (snd (snd (upload_or_update_csv ''a\<newline>1\<newline>'' ''x.csv'' u_ex d_empty))))))))
       = [Files_list ''x.csv'' (Some ''folder'') None,
          Files_create ''x.csv'' [''folder''] ''a\<newline>1\<newline>'' False,
          Files_update 1 ''a\<newline>1\<newline>2\<newline>'' False]
   \<and> fst (snd (find_existing_file ''x.csv'' u_ex d_empty)) = u_ex
   \<and> (\<exists>x. named u_seen ''x.csv''
          (fst (snd (snd (upload_or_update_csv ''c'' ''x.csv''
             (fst (snd (upload_or_update_csv ''b'' ''x.csv'' u_seen d_seen)))
             (fst (snd (snd (upload_or_update_csv ''b'' ''x.csv'' u_seen d_seen)))))))) = [x]
        \<and> media x = ''c'')"
proof -
  let ?X1 = "upload_or_update_csv ''a\<newline>1\<newline>'' ''x.csv'' u_ex d_empty"
  let ?X2 = "upload_or_update_csv ''a\<newline>1\<newline>2\<newline>'' ''x.csv'' (fst (snd ?X1)) (fst (snd (snd ?X1)))"
  have a1: "\<forall>n. faults d_empty n = None" by (simp add: d_empty_def)
  have a2: "case file_cache u_ex ''x.csv'' of
              None \<Rightarrow> length (named u_ex ''x.csv'' d_empty) \<le> 1
            | Some i \<Rightarrow> map file_id (named u_ex ''x.csv'' d_empty) = [i]"
    by (simp add: u_ex_def named_def d_empty_def)
  have a4: "?X1 = (fst ?X1, fst (snd ?X1), fst (snd (snd ?X1)), snd (snd (snd ?X1)))" by simp
  have a5: "?X2 = (fst ?X2, fst (snd ?X2), fst (snd (snd ?X2)), snd (snd (snd ?X2)))" by simp
  note t = sync_twice_one_object [OF a1 a2 a4 a5]
  have look: "find_existing_file ''x.csv'' u_ex d_empty =
      (None, u_ex, d_empty\<lparr>journal := [Files_list ''x.csv'' (Some ''folder'') None]\<rparr>, [])"
    using find_absent [of u_ex "''x.csv''" d_empty]
    by (simp add: u_ex_def d_empty_def named_def query_parent_def query_drive_def)
  have x1: "?X1 =
     (Some 1, u_ex\<lparr>file_cache := (file_cache u_ex)(''x.csv'' \<mapsto> 1)\<rparr>,
      d_empty\<lparr>journal := [Files_list ''x.csv'' (Some ''folder'') None,
                           Files_create ''x.csv'' [''folder''] ''a\<newline>1\<newline>'' False],
              objects := [\<lparr>file_id = 1, file_name = ''x.csv'', parents = [''folder''],
                           trashed = False, media = ''a\<newline>1\<newline>''\<rparr>]\<rparr>,
      [(INFO, Successfully_uploaded_new ''x.csv'' 1)])"
    using upload_absent_ok [of u_ex "''x.csv''" d_empty "''a\<newline>1\<newline>''"]
    by (simp add: u_ex_def d_empty_def named_def fresh_id_def query_parent_def query_drive_def
        new_file_parents_def)
  from t obtain x where x: "named u_ex ''x.csv'' (fst (snd (snd ?X2))) = [x]"
      "media x = ''a\<newline>1\<newline>2\<newline>''" "fst ?X1 = Some (file_id x)"
      "file_cache (fst (snd ?X1)) ''x.csv'' = Some (file_id x)"
      "journal (fst (snd (snd ?X2))) = journal (fst (snd (snd ?X1)))
         @ [Files_update (file_id x) ''a\<newline>1\<newline>2\<newline>'' (truthy (shared_drive_id u_ex))]"
    by blast
  from x(3) have id: "file_id x = 1" by (simp add: x1)
  have p1: "\<exists>x. named u_ex ''x.csv'' (fst (snd (snd ?X2))) = [x] \<and> media x = ''a\<newline>1\<newline>2\<newline>''"
    using x(1,2) by blast
  have p2: "file_cache (fst (snd ?X1)) ''x.csv'' = Some 1"
    using x(4) id by simp
  have p3: "journal (fst (snd (snd ?X2))) =
      [Files_list ''x.csv'' (Some ''folder'') None,
       Files_create ''x.csv'' [''folder''] ''a\<newline>1\<newline>'' False,
       Files_update 1 ''a\<newline>1\<newline>2\<newline>'' False]"
  proof -
    have j1: "journal (fst (snd (snd ?X1))) =
        [Files_list ''x.csv'' (Some ''folder'') None,
         Files_create ''x.csv'' [''folder''] ''a\<newline>1\<newline>'' False]"
      by (simp add: x1)
    have sd: "truthy (shared_drive_id u_ex) = False" by (simp add: u_ex_def)
    from x(5) show ?thesis by (simp only: j1 sd id append.simps)
  qed
  from t look have p4: "fst (snd (find_existing_file ''x.csv'' u_ex d_empty)) = u_ex"
    by simp
  let ?Y1 = "upload_or_update_csv ''b'' ''x.csv'' u_seen d_seen"
  let ?Y2 = "upload_or_update_csv ''c'' ''x.csv'' (fst (snd ?Y1)) (fst (snd (snd ?Y1)))"
  have b1: "\<forall>n. faults d_seen n = None" by (simp add: d_seen_def)
  have b2: "case file_cache u_seen ''x.csv'' of
              None \<Rightarrow> length (named u_seen ''x.csv'' d_seen) \<le> 1
            | Some i \<Rightarrow> map file_id (named u_seen ''x.csv'' d_seen) = [i]"
    by (simp add: u_seen_def named_def d_seen_def matches_def query_parent_def)
  have b4: "?Y1 = (fst ?Y1, fst (snd ?Y1), fst (snd (snd ?Y1)), snd (snd (snd ?Y1)))" by simp
  have b5: "?Y2 = (fst ?Y2, fst (snd ?Y2), fst (snd (snd ?Y2)), snd (snd (snd ?Y2)))" by simp
  from sync_twice_one_object [OF b1 b2 b4 b5]
  have p5: "\<exists>x. named u_seen ''x.csv'' (fst (snd (snd ?Y2))) = [x] \<and> media x = ''c''"
    by blast
  from p1 p2 p3 p4 p5 show ?thesis by blast
qed

text \<open>
  A lookup that finds nothing leaves the cache as it was: the name has no entry
  afterwards, and a second lookup asks the store again.
\<close>

theorem not_found_is_not_cached_counterexample:
  "fst (find_existing_file ''x.csv'' u_ex d_empty) = None
   \<and> file_cache (fst (snd (find_existing_file ''x.csv'' u_ex d_empty))) ''x.csv'' = None
   \<and> journal (fst (snd (snd (find_existing_file ''x.csv''
        (fst (snd (find_existing_file ''x.csv'' u_ex d_empty)))
        (fst (snd (snd (find_existing_file ''x.csv'' u_ex d_empty))))))))
      = [Files_list ''x.csv'' (Some ''folder'') None, Files_list ''x.csv'' (Some ''folder'') None]"
proof -
  have look: "find_existing_file ''x.csv'' u_ex d_empty =
      (None, u_ex, d_empty\<lparr>journal := [Files_list ''x.csv'' (Some ''folder'') None]\<rparr>, [])"
    using find_absent [of u_ex "''x.csv''" d_empty]
    by (simp add: u_ex_def d_empty_def named_def query_parent_def query_drive_def)
  have again: "find_existing_file ''x.csv'' u_ex (d_empty\<lparr>journal := [Files_list ''x.csv'' (Some ''folder'') None]\<rparr>) =
      (None, u_ex, d_empty\<lparr>journal := [Files_list ''x.csv'' (Some ''folder'') None,
                                         Files_list ''x.csv'' (Some ''folder'') None]\<rparr>, [])"
    using find_absent [of u_ex "''x.csv''" "d_empty\<lparr>journal := [Files_list ''x.csv'' (Some ''folder'') None]\<rparr>"]
    by (simp add: u_ex_def d_empty_def named_def query_parent_def query_drive_def)
  show ?thesis
    unfolding look fst_conv snd_conv again by (simp add: u_ex_def)
qed

text \<open>
  A lookup that raises is answered like one that finds nothing, and the upload goes on
  to create: with the object of that name already in the store, two uploads leave two
  objects of that name.
\<close>

lemma failed_lookup_makes_second_object:
  "map (\<lambda>x. (file_id x, media x))
     (named u_ex ''x.csv''
        (fst (snd (snd (upload_or_update_csv ''a\<newline>1\<newline>2\<newline>'' ''x.csv''
           (fst (snd (upload_or_update_csv ''a\<newline>1\<newline>'' ''x.csv'' u_ex d_old)))
           (fst (snd (snd (upload_or_update_csv ''a\<newline>1\<newline>'' ''x.csv'' u_ex d_old)))))))))
   = [(7, ''old''), (8, ''a\<newline>1\<newline>2\<newline>'')]"
proof -
  have first: "upload_or_update_csv ''a\<newline>1\<newline>'' ''x.csv'' u_ex d_old =
     (Some 8, u_ex\<lparr>file_cache := [''x.csv'' \<mapsto> 8]\<rparr>,
      d_old\<lparr>journal := [Files_list ''x.csv'' (Some ''folder'') None,
                         Files_create ''x.csv'' [''folder''] ''a\<newline>1\<newline>'' False],
            objects := objects d_old @ [\<lparr>file_id = 8, file_name = ''x.csv'', parents = [''folder''],
                                         trashed = False, media = ''a\<newline>1\<newline>''\<rparr>]\<rparr>,
      [(ERROR, Error_searching_for_existing_file ''x.csv'' OtherException),
       (INFO, Successfully_uploaded_new ''x.csv'' 8)])"
    using upload_lookup_fault_ok [of u_ex "''x.csv''" d_old OtherException "''a\<newline>1\<newline>''"]
    by (simp add: u_ex_def d_old_def fresh_id_def query_parent_def query_drive_def new_file_parents_def)
  show ?thesis
    unfolding first fst_conv snd_conv
    by (simp add: upload_or_update_csv_def find_existing_file_def files_update_def named_def
        matches_def query_parent_def u_ex_def d_old_def)
qed

section \<open>Ticks and shutdown\<close>

lemma uploads_append: "uploads (xs @ ys) = uploads xs @ uploads ys"
  by (simp add: uploads_def)

lemma find_objects:
  "find_existing_file f u d = (found, u1, dl, lgl) \<Longrightarrow>
   objects dl = objects d \<and> faults dl = faults d
   \<and> uploads (journal dl) = uploads (journal d)"
  by (auto simp add: find_existing_file_def files_list_def Let_def uploads_def
      split: option.splits sum.splits list.splits)

lemma update_journal:
  "files_update i c s d = (res, d') \<Longrightarrow>
   uploads (journal d') = uploads (journal d) @ [c] \<and> (\<forall>e. res = Inl e \<longrightarrow> objects d' = objects d)"
  by (auto simp add: files_update_def Let_def uploads_def split: option.splits if_splits)

lemma create_journal:
  "files_create n ps c s d = (res, d') \<Longrightarrow>
   uploads (journal d') = uploads (journal d) @ [c] \<and> (\<forall>e. res = Inl e \<longrightarrow> objects d' = objects d)"
  by (auto simp add: files_create_def Let_def uploads_def split: option.splits if_splits)

lemma upload_journal:
  assumes "upload_or_update_csv c f u d = (i, u', d', lg)"
  shows "uploads (journal d') = uploads (journal d) @ [c]"
proof -
  obtain found u1 dl lgl where look: "find_existing_file f u d = (found, u1, dl, lgl)"
    by (cases "find_existing_file f u d") auto
  note l = find_objects [OF look]
  show ?thesis
  proof (cases found)
    case None
    obtain res d2 where cr: "files_create f (new_file_parents u1) c (truthy (shared_drive_id u1)) dl = (res, d2)"
      by (cases "files_create f (new_file_parents u1) c (truthy (shared_drive_id u1)) dl") auto
    from assms have "d' = d2"
      by (cases res) (auto simp add: upload_or_update_csv_def look None cr)
    with create_journal [OF cr] l show ?thesis by simp
  next
    case (Some j)
    obtain res d2 where up: "files_update j c (truthy (shared_drive_id u1)) dl = (res, d2)"
      by (cases "files_update j c (truthy (shared_drive_id u1)) dl") auto
    from assms have "d' = d2"
      by (cases res) (auto simp add: upload_or_update_csv_def look Some up)
    with update_journal [OF up] l show ?thesis by simp
  qed
qed

lemma upload_raises:
  assumes look: "find_existing_file f u d = (found, u1, dl, lgl)"
    and raises: "(case found of
                    Some i \<Rightarrow> fst (files_update i c (truthy (shared_drive_id u1)) dl)
                  | None \<Rightarrow> fst (files_create f (new_file_parents u1) c (truthy (shared_drive_id u1)) dl))
                 = Inl e"
  shows "\<exists>d1. upload_or_update_csv c f u d =
            (None, u1, d1, lgl @ [(ERROR, Error_uploading_updating f e)])
          \<and> objects d1 = objects d"
proof (cases found)
  case None
  obtain res d2 where cr: "files_create f (new_file_parents u1) c (truthy (shared_drive_id u1)) dl = (res, d2)"
    by (cases "files_create f (new_file_parents u1) c (truthy (shared_drive_id u1)) dl") auto
  with raises None have res: "res = Inl e" by simp
  with create_journal [OF cr] find_objects [OF look] have "objects d2 = objects d" by simp
  then show ?thesis
    by (simp add: upload_or_update_csv_def look None cr res)
next
  case (Some j)
  obtain res d2 where up: "files_update j c (truthy (shared_drive_id u1)) dl = (res, d2)"
    by (cases "files_update j c (truthy (shared_drive_id u1)) dl") auto
  with raises Some have res: "res = Inl e" by simp
  with update_journal [OF up] find_objects [OF look] have "objects d2 = objects d" by simp
  then show ?thesis
    by (simp add: upload_or_update_csv_def look Some up res)
qed

lemma add_data_rows:
  "rows \<noteq> [] \<Longrightarrow>
   current_hour_data (fst (add_data h rows w))
     = (if current_hour w = Some h then current_hour_data w else []) @ rows
   \<and> current_hour (fst (add_data h rows w)) = Some h
   \<and> path_prefix (fst (add_data h rows w)) = path_prefix w
   \<and> name_prefix (fst (add_data h rows w)) = name_prefix w"
  by (simp add: add_data_def Let_def)

lemma render_ok:
  "current_hour_data w \<noteq> [] \<Longrightarrow> to_csv (current_hour_data w) = Inr c \<Longrightarrow>
   get_current_csv_content to_csv w =
     (Some c, w, [(INFO, Generated_CSV (length (current_hour_data w)) (current_hour w))])"
  by (simp add: get_current_csv_content_def write_hour_data_def)

lemma render_raises:
  "current_hour_data w \<noteq> [] \<Longrightarrow> to_csv (current_hour_data w) = Inl e \<Longrightarrow>
   get_current_csv_content to_csv w = (None, w, [(ERROR, Error_generating_CSV e)])"
  by (simp add: get_current_csv_content_def write_hour_data_def)

lemma render_empty:
  "current_hour_data w = [] \<Longrightarrow> get_current_csv_content to_csv w = (None, w, [])"
  by (simp add: get_current_csv_content_def write_hour_data_def)

lemma tick_with_rows:
  assumes "get_new_data tbl n0 n1 (db_reader a) = Some (Inr rows, r', lgr, sent)" and "rows \<noteq> []"
    and "to_csv (current_hour_data (fst (add_data h rows (csv_writer a)))) = Inr c" and "c \<noteq> []"
    and "upload_or_update_csv c (get_current_filename hn (fst (add_data h rows (csv_writer a))))
           (drive_uploader a) d = (i, u', d', lgs)"
  shows "read_and_write_data tbl n0 n1 h hn to_csv a d =
     Some (None,
           a\<lparr>db_reader := r', csv_writer := fst (add_data h rows (csv_writer a)), drive_uploader := u'\<rparr>,
           d',
           (INFO, Reading_new_data) # lgr @ snd (add_data h rows (csv_writer a))
             @ [(INFO, Generated_CSV (length (current_hour_data (fst (add_data h rows (csv_writer a)))))
                         (current_hour (fst (add_data h rows (csv_writer a)))))]
             @ lgs)"
proof -
  obtain w1 lg1 where ad: "add_data h rows (csv_writer a) = (w1, lg1)"
    by (cases "add_data h rows (csv_writer a)") auto
  have ne: "current_hour_data w1 \<noteq> []"
    using add_data_rows [OF assms(2), of h "csv_writer a"] assms(2) by (simp add: ad)
  from assms(3) have r: "to_csv (current_hour_data w1) = Inr c" by (simp add: ad)
  from assms(5) have u: "upload_or_update_csv c (get_current_filename hn w1) (drive_uploader a) d
      = (i, u', d', lgs)" by (simp add: ad)
  show ?thesis
    by (simp add: read_and_write_data_def assms(1,2,4) ad render_ok [of w1 to_csv c, OF ne r] u)
qed

lemma tick_without_rows:
  assumes "get_new_data tbl n0 n1 (db_reader a) = Some (Inr [], r', lgr, sent)"
  shows "read_and_write_data tbl n0 n1 h hn to_csv a d =
     Some (None, a\<lparr>db_reader := r'\<rparr>, d,
           (INFO, Reading_new_data) # lgr @ [(INFO, No_new_data_found)])"
  by (simp add: read_and_write_data_def assms)

lemma tick_render_raises:
  assumes "get_new_data tbl n0 n1 (db_reader a) = Some (Inr rows, r', lgr, sent)" and "rows \<noteq> []"
    and "to_csv (current_hour_data (fst (add_data h rows (csv_writer a)))) = Inl e"
  shows "read_and_write_data tbl n0 n1 h hn to_csv a d =
     Some (None,
           a\<lparr>db_reader := r', csv_writer := fst (add_data h rows (csv_writer a))\<rparr>,
           d,
           (INFO, Reading_new_data) # lgr @ snd (add_data h rows (csv_writer a))
             @ [(ERROR, Error_generating_CSV e)])"
proof -
  obtain w1 lg1 where ad: "add_data h rows (csv_writer a) = (w1, lg1)"
    by (cases "add_data h rows (csv_writer a)") auto
  have ne: "current_hour_data w1 \<noteq> []"
    using add_data_rows [OF assms(2), of h "csv_writer a"] assms(2) by (simp add: ad)
  from assms(3) have r: "to_csv (current_hour_data w1) = Inl e" by (simp add: ad)
  show ?thesis
    by (simp add: read_and_write_data_def assms(1,2) ad render_raises [of w1 to_csv e, OF ne r])
qed

text \<open>
  C10. When the renderer raises, \<^verbatim>\<open>get_current_csv_content\<close> catches it, logs it and
  returns the absent value, which is also what it returns for an empty bucket; the
  writer is returned as it was. In a tick, the rows fetched are added to the bucket, and
  when the rendering of that bucket raises, the tick ends without a call to the store:
  the store and the uploader are as before.
\<close>

theorem render_failure_looks_like_no_data:
  "(current_hour_data w \<noteq> [] \<and> to_csv (current_hour_data w) = Inl e \<longrightarrow>
      get_current_csv_content to_csv w = (None, w, [(ERROR, Error_generating_CSV e)]))
   \<and> (current_hour_data w = [] \<longrightarrow> get_current_csv_content to_csv w = (None, w, []))
   \<and> (get_new_data tbl n0 n1 (db_reader a) = Some (Inr rows, r', lgr, sent) \<and> rows \<noteq> []
       \<and> to_csv (current_hour_data (fst (add_data h rows (csv_writer a)))) = Inl e \<longrightarrow>
      (\<exists>lg. read_and_write_data tbl n0 n1 h hn to_csv a d =
              Some (None, a\<lparr>db_reader := r', csv_writer := fst (add_data h rows (csv_writer a))\<rparr>, d, lg)))"
  using render_raises [of w to_csv e] render_empty [of w to_csv]
    tick_render_raises [of tbl n0 n1 a rows r' lgr sent to_csv h e hn d]
  by blast

theorem render_failure_looks_like_no_data_witness:
  "get_current_csv_content broken_renderer w_ab = (None, w_ab, [(ERROR, Error_generating_CSV OtherException)])
   \<and> get_current_csv_content broken_renderer w_new = (None, w_new, [])
   \<and> (\<exists>lg. read_and_write_data three_pages 1000 1000 ''20250101_10'' ''20250101_10'' broken_renderer
              a_ex d_empty =
            Some (None,
                  a_ex\<lparr>db_reader := \<lparr>last_read_timestamp = Some 1000\<rparr>,
                       csv_writer := w_new\<lparr>current_hour := Some ''20250101_10'',
                         current_hour_data := [[(''id'', Num ''1'')], [(''id'', Num ''2'')],
                                               [(''id'', Num ''3'')], [(''id'', Num ''4'')]]\<rparr>\<rparr>,
                  d_empty, lg))"
proof -
  let ?rows = "[[(''id'', Num ''1'')], [(''id'', Num ''2'')], [(''id'', Num ''3'')], [(''id'', Num ''4'')]]"
  have p1: "current_hour_data w_ab \<noteq> [] \<and> broken_renderer (current_hour_data w_ab) = Inl OtherException"
    by (simp add: w_ab_def broken_renderer_def)
  have p2: "current_hour_data w_new = []" by (simp add: w_new_def)
  have ad: "fst (add_data ''20250101_10'' ?rows (csv_writer a_ex))
      = w_new\<lparr>current_hour := Some ''20250101_10'', current_hour_data := ?rows\<rparr>"
    by (simp add: add_data_def a_ex_def w_new_def)
  have p3: "get_new_data three_pages 1000 1000 (db_reader a_ex) =
      Some (Inr ?rows, \<lparr>last_read_timestamp = Some 1000\<rparr>,
           [(INFO, Searching_for_data (-2600) 1000), (INFO, Retrieved_new_items 4),
            (INFO, Sample_timestamps [Str ''N/A'', Str ''N/A'', Str ''N/A''])],
           [\<lparr>last_ts = -2600, current_ts = 1000, ExclusiveStartKey = None\<rparr>,
            \<lparr>last_ts = -2600, current_ts = 1000, ExclusiveStartKey = Some 1\<rparr>,
            \<lparr>last_ts = -2600, current_ts = 1000, ExclusiveStartKey = Some 2\<rparr>])
     \<and> ?rows \<noteq> []
     \<and> broken_renderer (current_hour_data (fst (add_data ''20250101_10'' ?rows (csv_writer a_ex))))
         = Inl OtherException"
    by (simp add: fetch_three_pages a_ex_def window_start_def broken_renderer_def)
  note t = render_failure_looks_like_no_data [of w_ab broken_renderer OtherException]
  note t' = render_failure_looks_like_no_data [of w_new broken_renderer OtherException three_pages 1000 1000
      a_ex ?rows _ _ _ "''20250101_10''" "''20250101_10''" d_empty]
  from t p1 have "get_current_csv_content broken_renderer w_ab
      = (None, w_ab, [(ERROR, Error_generating_CSV OtherException)])" by blast
  moreover from t' p2 have "get_current_csv_content broken_renderer w_new = (None, w_new, [])" by blast
  moreover from t' p3 have "\<exists>lg. read_and_write_data three_pages 1000 1000 ''20250101_10'' ''20250101_10''
        broken_renderer a_ex d_empty =
      Some (None, a_ex\<lparr>db_reader := \<lparr>last_read_timestamp = Some 1000\<rparr>,
                       csv_writer := fst (add_data ''20250101_10'' ?rows (csv_writer a_ex))\<rparr>, d_empty, lg)"
    by blast
  ultimately show ?thesis unfolding ad by blast
qed

text \<open>
  C9. \<^verbatim>\<open>stop\<close> with rows in the bucket that render to a text makes one upload of that
  text: the store receives exactly one request that carries content, and it carries the
  rendering of the bucket; the line that reports the stop is logged after the lines of
  the upload, and the application is marked as not running. With an empty bucket the
  store is left as it was: no call is made.
\<close>

theorem stop_flushes_once:
  "(current_hour_data (csv_writer a) \<noteq> [] \<and> to_csv (current_hour_data (csv_writer a)) = Inr c \<and> c \<noteq> []
     \<and> upload_or_update_csv c (get_current_filename hn (csv_writer a)) (drive_uploader a) d = (i, u', d', lgs)
    \<longrightarrow> stop hn to_csv a d =
          (a\<lparr>is_running := False, drive_uploader := u'\<rparr>, d',
           (INFO, Stopping)
           # (INFO, Generated_CSV (length (current_hour_data (csv_writer a))) (current_hour (csv_writer a)))
           # lgs @ [(INFO, Application_stopped)])
        \<and> uploads (journal d') = uploads (journal d) @ [c])
   \<and> (current_hour_data (csv_writer a) = [] \<longrightarrow>
        stop hn to_csv a d = (a\<lparr>is_running := False\<rparr>, d, [(INFO, Stopping), (INFO, Application_stopped)]))"
proof (intro conjI impI)
  assume h: "current_hour_data (csv_writer a) \<noteq> [] \<and> to_csv (current_hour_data (csv_writer a)) = Inr c \<and> c \<noteq> []
     \<and> upload_or_update_csv c (get_current_filename hn (csv_writer a)) (drive_uploader a) d = (i, u', d', lgs)"
  then have r: "get_current_csv_content to_csv (csv_writer a) =
      (Some c, csv_writer a,
       [(INFO, Generated_CSV (length (current_hour_data (csv_writer a))) (current_hour (csv_writer a)))])"
    using render_ok [of "csv_writer a" to_csv c] by blast
  from h show "stop hn to_csv a d =
          (a\<lparr>is_running := False, drive_uploader := u'\<rparr>, d',
           (INFO, Stopping)
           # (INFO, Generated_CSV (length (current_hour_data (csv_writer a))) (current_hour (csv_writer a)))
           # lgs @ [(INFO, Application_stopped)])"
    by (simp add: stop_def Let_def r)
  from h upload_journal [of c "get_current_filename hn (csv_writer a)" "drive_uploader a" d i u' d' lgs]
  show "uploads (journal d') = uploads (journal d) @ [c]" by blast
next
  assume "current_hour_data (csv_writer a) = []"
  then show "stop hn to_csv a d = (a\<lparr>is_running := False\<rparr>, d, [(INFO, Stopping), (INFO, Application_stopped)])"
    by (simp add: stop_def Let_def render_empty)
qed

lemma render_w_ab:
  "pandas_to_csv (current_hour_data w_ab) = Inr ''a,b,c\<newline>1,2,\<newline>3,,4\<newline>''"
  by (simp add: pandas_to_csv_def columns_def w_ab_def cell_def column_def infer_def csv_record_def
      csv_field_def special_def)

theorem stop_flushes_once_witness:
  "uploads (journal (fst (snd (stop ''20250101_11'' pandas_to_csv (a_ex\<lparr>csv_writer := w_ab\<rparr>) d_empty))))
     = [''a,b,c\<newline>1,2,\<newline>3,,4\<newline>'']
   \<and> is_running (fst (stop ''20250101_11'' pandas_to_csv (a_ex\<lparr>csv_writer := w_ab\<rparr>) d_empty)) = False
   \<and> last (snd (snd (stop ''20250101_11'' pandas_to_csv (a_ex\<lparr>csv_writer := w_ab\<rparr>) d_empty)))
       = (INFO, Application_stopped)
   \<and> stop ''20250101_11'' pandas_to_csv a_ex d_empty
       = (a_ex\<lparr>is_running := False\<rparr>, d_empty, [(INFO, Stopping), (INFO, Application_stopped)])"
proof -
  let ?a = "a_ex\<lparr>csv_writer := w_ab\<rparr>"
  let ?c = "''a,b,c\<newline>1,2,\<newline>3,,4\<newline>''"
  let ?X = "upload_or_update_csv ?c (get_current_filename ''20250101_11'' (csv_writer ?a)) (drive_uploader ?a) d_empty"
  have p: "current_hour_data (csv_writer ?a) \<noteq> [] \<and> pandas_to_csv (current_hour_data (csv_writer ?a)) = Inr ?c
      \<and> ?c \<noteq> [] \<and> ?X = (fst ?X, fst (snd ?X), fst (snd (snd ?X)), snd (snd (snd ?X)))"
    using render_w_ab by (simp add: w_ab_def)
  have e: "current_hour_data (csv_writer a_ex) = []" by (simp add: a_ex_def w_new_def)
  note t = stop_flushes_once [of ?a pandas_to_csv ?c "''20250101_11''" d_empty
      "fst ?X" "fst (snd ?X)" "fst (snd (snd ?X))" "snd (snd (snd ?X))"]
  note t' = stop_flushes_once [of a_ex pandas_to_csv ?c "''20250101_11''" d_empty]
  from t p have s: "stop ''20250101_11'' pandas_to_csv ?a d_empty =
          (?a\<lparr>is_running := False, drive_uploader := fst (snd ?X)\<rparr>, fst (snd (snd ?X)),
           (INFO, Stopping)
           # (INFO, Generated_CSV (length (current_hour_data (csv_writer ?a))) (current_hour (csv_writer ?a)))
           # snd (snd (snd ?X)) @ [(INFO, Application_stopped)])"
    and u: "uploads (journal (fst (snd (snd ?X)))) = uploads (journal d_empty) @ [?c]"
    by blast+
  have "uploads (journal (fst (snd (stop ''20250101_11'' pandas_to_csv ?a d_empty)))) = [?c]"
    unfolding s using u by (simp add: d_empty_def uploads_def)
  moreover have "is_running (fst (stop ''20250101_11'' pandas_to_csv ?a d_empty)) = False"
    unfolding s by simp
  moreover have "last (snd (snd (stop ''20250101_11'' pandas_to_csv ?a d_empty))) = (INFO, Application_stopped)"
    unfolding s by simp
  moreover from t' e have "stop ''20250101_11'' pandas_to_csv a_ex d_empty
       = (a_ex\<lparr>is_running := False\<rparr>, d_empty, [(INFO, Stopping), (INFO, Application_stopped)])"
    by blast
  ultimately show ?thesis by blast
qed

text \<open>
  C5, as the code has it. A tick fetches rows and renders the bucket; the request that
  would replace or create the object raises. Then the upload returns the absent
  identifier and logs the error, the tick returns without raising, the stored objects
  are as before, and the bucket holds its rows. A later tick in the same hour that
  fetches at least one row sends the rendering of the old rows followed by the new ones.
  (A tick that fetches no row does not call the store.)
\<close>

theorem failed_sync_keeps_bucket:
  assumes fetch: "get_new_data tbl n0 n1 (db_reader a) = Some (Inr rows, r1, lgr, sent)"
    and rows: "rows \<noteq> []"
    and w1: "w1 = fst (add_data h rows (csv_writer a))"
    and render: "to_csv (current_hour_data w1) = Inr c" "c \<noteq> []"
    and lookup: "find_existing_file (get_current_filename hn w1) (drive_uploader a) d = (found, u1, dl, lgl)"
    and raises: "(case found of
                    Some i \<Rightarrow> fst (files_update i c (truthy (shared_drive_id u1)) dl)
                  | None \<Rightarrow> fst (files_create (get_current_filename hn w1) (new_file_parents u1) c
                                   (truthy (shared_drive_id u1)) dl))
                 = Inl e"
  shows "\<exists>d1 lg1.
      upload_or_update_csv c (get_current_filename hn w1) (drive_uploader a) d
        = (None, u1, d1, lgl @ [(ERROR, Error_uploading_updating (get_current_filename hn w1) e)])
      \<and> read_and_write_data tbl n0 n1 h hn to_csv a d
        = Some (None, a\<lparr>db_reader := r1, csv_writer := w1, drive_uploader := u1\<rparr>, d1, lg1)
      \<and> (ERROR, Error_uploading_updating (get_current_filename hn w1) e) \<in> set lg1
      \<and> objects d1 = objects d
      \<and> current_hour_data w1
          = (if current_hour (csv_writer a) = Some h then current_hour_data (csv_writer a) else []) @ rows
      \<and> (\<forall>tbl' m0 m1 hn' rows' r2 lgr' sent' c'.
            get_new_data tbl' m0 m1 r1 = Some (Inr rows', r2, lgr', sent') \<and> rows' \<noteq> []
            \<and> to_csv (current_hour_data w1 @ rows') = Inr c' \<and> c' \<noteq> []
            \<longrightarrow> (\<exists>a2 d2 lg2.
                  read_and_write_data tbl' m0 m1 h hn' to_csv
                    (a\<lparr>db_reader := r1, csv_writer := w1, drive_uploader := u1\<rparr>) d1
                    = Some (None, a2, d2, lg2)
                  \<and> current_hour_data (csv_writer a2) = current_hour_data w1 @ rows'
                  \<and> uploads (journal d2) = uploads (journal d1) @ [c']))"
proof -
  let ?f = "get_current_filename hn w1"
  let ?err = "(ERROR, Error_uploading_updating ?f e)"
  from upload_raises [OF lookup raises]
  obtain d1 where up: "upload_or_update_csv c ?f (drive_uploader a) d = (None, u1, d1, lgl @ [?err])"
    and obj: "objects d1 = objects d"
    by blast
  let ?a1 = "a\<lparr>db_reader := r1, csv_writer := w1, drive_uploader := u1\<rparr>"
  let ?lg1 = "(INFO, Reading_new_data) # lgr @ snd (add_data h rows (csv_writer a))
             @ [(INFO, Generated_CSV (length (current_hour_data w1)) (current_hour w1))]
             @ lgl @ [?err]"
  have tick: "read_and_write_data tbl n0 n1 h hn to_csv a d = Some (None, ?a1, d1, ?lg1)"
    using tick_with_rows [where to_csv = to_csv, OF fetch rows render(1) [unfolded w1] render(2) up [unfolded w1]]
    by (simp add: w1)
  have logged: "?err \<in> set ?lg1" by simp
  note kept = add_data_rows [OF rows, of h "csv_writer a", folded w1]
  have retry: "\<exists>a2 d2 lg2.
        read_and_write_data tbl' m0 m1 h hn' to_csv ?a1 d1 = Some (None, a2, d2, lg2)
        \<and> current_hour_data (csv_writer a2) = current_hour_data w1 @ rows'
        \<and> uploads (journal d2) = uploads (journal d1) @ [c']"
    if nx: "get_new_data tbl' m0 m1 r1 = Some (Inr rows', r2, lgr', sent') \<and> rows' \<noteq> []
            \<and> to_csv (current_hour_data w1 @ rows') = Inr c' \<and> c' \<noteq> []"
    for tbl' m0 m1 hn' rows' r2 lgr' sent' c'
  proof -
    from nx have ne: "rows' \<noteq> []" by simp
    have w2: "current_hour_data (fst (add_data h rows' (csv_writer ?a1))) = current_hour_data w1 @ rows'"
      using add_data_rows [OF ne, of h w1] kept by simp
    obtain i2 u2 d2 lg2 where up2:
      "upload_or_update_csv c' (get_current_filename hn' (fst (add_data h rows' (csv_writer ?a1))))
         (drive_uploader ?a1) d1 = (i2, u2, d2, lg2)"
      using prod_cases4 by blast
    from nx have f2: "get_new_data tbl' m0 m1 (db_reader ?a1) = Some (Inr rows', r2, lgr', sent')" by simp
    from nx have r2: "to_csv (current_hour_data (fst (add_data h rows' (csv_writer ?a1)))) = Inr c'"
      by (simp only: w2)
    from nx have c2: "c' \<noteq> []" by simp
    note t2 = tick_with_rows [where to_csv = to_csv, OF f2 ne r2 c2 up2]
    from upload_journal [OF up2] have "uploads (journal d2) = uploads (journal d1) @ [c']" .
    with t2 w2 show ?thesis by simp
  qed
  from up tick logged obj kept retry show ?thesis by blast
qed

lemma render_four:
  "pandas_to_csv [[(''id'', Num ''1'')], [(''id'', Num ''2'')], [(''id'', Num ''3'')], [(''id'', Num ''4'')]]
     = Inr ''id\<newline>1\<newline>2\<newline>3\<newline>4\<newline>''"
  by (simp add: pandas_to_csv_def columns_def cell_def column_def infer_def csv_record_def
      csv_field_def special_def)

lemma render_eight:
  "pandas_to_csv [[(''id'', Num ''1'')], [(''id'', Num ''2'')], [(''id'', Num ''3'')], [(''id'', Num ''4'')],
                  [(''id'', Num ''1'')], [(''id'', Num ''2'')], [(''id'', Num ''3'')], [(''id'', Num ''4'')]]
     = Inr ''id\<newline>1\<newline>2\<newline>3\<newline>4\<newline>1\<newline>2\<newline>3\<newline>4\<newline>''"
  by (simp add: pandas_to_csv_def columns_def cell_def column_def infer_def csv_record_def
      csv_field_def special_def)

lemma add_four:
  "fst (add_data ''20250101_10''
         [[(''id'', Num ''1'')], [(''id'', Num ''2'')], [(''id'', Num ''3'')], [(''id'', Num ''4'')]]
         (csv_writer a_ex))
   = w_new\<lparr>current_hour := Some ''20250101_10'',
           current_hour_data := [[(''id'', Num ''1'')], [(''id'', Num ''2'')],
                                 [(''id'', Num ''3'')], [(''id'', Num ''4'')]]\<rparr>"
  by (simp add: add_data_def a_ex_def w_new_def)

lemma filename_four:
  "get_current_filename ''20250101_10''
     (w_new\<lparr>current_hour := Some ''20250101_10'', current_hour_data := rows\<rparr>)
   = ''locness_data_20250101_10.csv''"
  by (simp add: get_current_filename_def w_new_def)

lemma lookup_down:
  "find_existing_file ''locness_data_20250101_10.csv'' (drive_uploader a_ex) d_down =
     (None, u_ex,
      d_down\<lparr>journal := [Files_list ''locness_data_20250101_10.csv'' (Some ''folder'') None]\<rparr>,
      [(ERROR, Error_searching_for_existing_file ''locness_data_20250101_10.csv'' OtherException)])"
  using find_fault [of u_ex "''locness_data_20250101_10.csv''" d_down OtherException]
  by (simp add: a_ex_def u_ex_def d_down_def query_parent_def query_drive_def)

lemma create_down:
  "fst (files_create ''locness_data_20250101_10.csv'' (new_file_parents u_ex) c
         (truthy (shared_drive_id u_ex))
         (d_down\<lparr>journal := [Files_list ''locness_data_20250101_10.csv'' (Some ''folder'') None]\<rparr>))
   = Inl OtherException"
  by (simp add: files_create_def d_down_def)

theorem failed_sync_keeps_bucket_witness:
  "\<exists>a1 d1 lg1.
     read_and_write_data three_pages 1000 1000 ''20250101_10'' ''20250101_10'' pandas_to_csv a_ex d_down
       = Some (None, a1, d1, lg1)
     \<and> (ERROR, Error_uploading_updating ''locness_data_20250101_10.csv'' OtherException) \<in> set lg1
     \<and> objects d1 = []
     \<and> current_hour_data (csv_writer a1)
         = [[(''id'', Num ''1'')], [(''id'', Num ''2'')], [(''id'', Num ''3'')], [(''id'', Num ''4'')]]
     \<and> (\<exists>a2 d2 lg2.
           read_and_write_data three_pages 1060 1060 ''20250101_10'' ''20250101_10'' pandas_to_csv a1 d1
             = Some (None, a2, d2, lg2)
           \<and> uploads (journal d2) = uploads (journal d1)
               @ [''id\<newline>1\<newline>2\<newline>3\<newline>4\<newline>1\<newline>2\<newline>3\<newline>4\<newline>''])"
proof -
  let ?rows = "[[(''id'', Num ''1'')], [(''id'', Num ''2'')], [(''id'', Num ''3'')], [(''id'', Num ''4'')]]"
  let ?w1 = "w_new\<lparr>current_hour := Some ''20250101_10'', current_hour_data := ?rows\<rparr>"
  let ?f = "''locness_data_20250101_10.csv''"
  let ?c = "''id\<newline>1\<newline>2\<newline>3\<newline>4\<newline>''"
  let ?c2 = "''id\<newline>1\<newline>2\<newline>3\<newline>4\<newline>1\<newline>2\<newline>3\<newline>4\<newline>''"
  let ?dl = "d_down\<lparr>journal := [Files_list ?f (Some ''folder'') None]\<rparr>"
  have fetch: "get_new_data three_pages 1000 1000 (db_reader a_ex) =
      Some (Inr ?rows, \<lparr>last_read_timestamp = Some 1000\<rparr>,
           [(INFO, Searching_for_data (-2600) 1000), (INFO, Retrieved_new_items 4),
            (INFO, Sample_timestamps [Str ''N/A'', Str ''N/A'', Str ''N/A''])],
           [\<lparr>last_ts = -2600, current_ts = 1000, ExclusiveStartKey = None\<rparr>,
            \<lparr>last_ts = -2600, current_ts = 1000, ExclusiveStartKey = Some 1\<rparr>,
            \<lparr>last_ts = -2600, current_ts = 1000, ExclusiveStartKey = Some 2\<rparr>])"
    by (simp add: fetch_three_pages a_ex_def window_start_def)
  have rows: "?rows \<noteq> []" by simp
  have w1: "?w1 = fst (add_data ''20250101_10'' ?rows (csv_writer a_ex))"
    by (simp only: add_four)
  have render: "pandas_to_csv (current_hour_data ?w1) = Inr ?c" "?c \<noteq> []"
    using render_four by simp_all
  have lookup: "find_existing_file (get_current_filename ''20250101_10'' ?w1) (drive_uploader a_ex) d_down
      = (None, u_ex, ?dl, [(ERROR, Error_searching_for_existing_file ?f OtherException)])"
    by (simp only: filename_four lookup_down)
  have raises: "(case None of
                    Some i \<Rightarrow> fst (files_update i ?c (truthy (shared_drive_id u_ex)) ?dl)
                  | None \<Rightarrow> fst (files_create (get_current_filename ''20250101_10'' ?w1)
                                   (new_file_parents u_ex) ?c (truthy (shared_drive_id u_ex)) ?dl))
                 = Inl OtherException"
    by (simp only: filename_four create_down option.case)
  from failed_sync_keeps_bucket [where to_csv = pandas_to_csv, OF fetch rows w1 render lookup raises]
  obtain d1 lg1 where
    tick: "read_and_write_data three_pages 1000 1000 ''20250101_10'' ''20250101_10'' pandas_to_csv a_ex d_down
        = Some (None, a_ex\<lparr>db_reader := \<lparr>last_read_timestamp = Some 1000\<rparr>, csv_writer := ?w1,
                            drive_uploader := u_ex\<rparr>, d1, lg1)"
    and logged: "(ERROR, Error_uploading_updating (get_current_filename ''20250101_10'' ?w1) OtherException)
        \<in> set lg1"
    and obj: "objects d1 = objects d_down"
    and retry: "\<And>tbl' m0 m1 hn' rows' r2 lgr' sent' c'.
            get_new_data tbl' m0 m1 \<lparr>last_read_timestamp = Some 1000\<rparr> = Some (Inr rows', r2, lgr', sent')
            \<and> rows' \<noteq> [] \<and> pandas_to_csv (current_hour_data ?w1 @ rows') = Inr c' \<and> c' \<noteq> []
            \<Longrightarrow> (\<exists>a2 d2 lg2.
                  read_and_write_data tbl' m0 m1 ''20250101_10'' hn' pandas_to_csv
                    (a_ex\<lparr>db_reader := \<lparr>last_read_timestamp = Some 1000\<rparr>, csv_writer := ?w1,
                          drive_uploader := u_ex\<rparr>) d1
                    = Some (None, a2, d2, lg2)
                  \<and> current_hour_data (csv_writer a2) = current_hour_data ?w1 @ rows'
                  \<and> uploads (journal d2) = uploads (journal d1) @ [c'])"
    by blast
  let ?a1 = "a_ex\<lparr>db_reader := \<lparr>last_read_timestamp = Some 1000\<rparr>, csv_writer := ?w1, drive_uploader := u_ex\<rparr>"
  have next_fetch: "get_new_data three_pages 1060 1060 \<lparr>last_read_timestamp = Some 1000\<rparr> =
      Some (Inr ?rows, \<lparr>last_read_timestamp = Some 1060\<rparr>,
           [(INFO, Searching_for_data 1000 1060), (INFO, Retrieved_new_items 4),
            (INFO, Sample_timestamps [Str ''N/A'', Str ''N/A'', Str ''N/A''])],
           [\<lparr>last_ts = 1000, current_ts = 1060, ExclusiveStartKey = None\<rparr>,
            \<lparr>last_ts = 1000, current_ts = 1060, ExclusiveStartKey = Some 1\<rparr>,
            \<lparr>last_ts = 1000, current_ts = 1060, ExclusiveStartKey = Some 2\<rparr>])
      \<and> ?rows \<noteq> [] \<and> pandas_to_csv (current_hour_data ?w1 @ ?rows) = Inr ?c2 \<and> ?c2 \<noteq> []"
    using render_eight by (simp add: fetch_three_pages window_start_def)
  from retry [OF next_fetch, of "''20250101_10''"]
  have second: "\<exists>a2 d2 lg2.
           read_and_write_data three_pages 1060 1060 ''20250101_10'' ''20250101_10'' pandas_to_csv ?a1 d1
             = Some (None, a2, d2, lg2)
           \<and> uploads (journal d2) = uploads (journal d1) @ [?c2]"
    by blast
  have l: "(ERROR, Error_uploading_updating ?f OtherException) \<in> set lg1"
    using logged by (simp only: filename_four)
  have o: "objects d1 = []" using obj by (simp add: d_down_def)
  have b: "current_hour_data (csv_writer ?a1) = ?rows" by simp
  from tick l o b second show ?thesis by blast
qed

lemma upload_down:
  "upload_or_update_csv c ''locness_data_20250101_10.csv'' (drive_uploader a_ex) d_down =
     (None, u_ex,
      d_down\<lparr>journal := [Files_list ''locness_data_20250101_10.csv'' (Some ''folder'') None,
                           Files_create ''locness_data_20250101_10.csv'' [''folder''] c False]\<rparr>,
      [(ERROR, Error_searching_for_existing_file ''locness_data_20250101_10.csv'' OtherException),
       (ERROR, Error_uploading_updating ''locness_data_20250101_10.csv'' OtherException)])"
  unfolding upload_or_update_csv_def lookup_down
  by (simp add: files_create_def d_down_def u_ex_def new_file_parents_def)

lemma failed_tick_value:
  "failed_tick =
     Some (None,
           a_ex\<lparr>db_reader := \<lparr>last_read_timestamp = Some 1000\<rparr>,
                csv_writer := w_new\<lparr>current_hour := Some ''20250101_10'',
                  current_hour_data := [[(''id'', Num ''1'')], [(''id'', Num ''2'')],
                                        [(''id'', Num ''3'')], [(''id'', Num ''4'')]]\<rparr>,
                drive_uploader := u_ex\<rparr>,
           d_down\<lparr>journal := [Files_list ''locness_data_20250101_10.csv'' (Some ''folder'') None,
                                Files_create ''locness_data_20250101_10.csv'' [''folder'']
                                  ''id\<newline>1\<newline>2\<newline>3\<newline>4\<newline>'' False]\<rparr>,
           [(INFO, Reading_new_data),
            (INFO, Searching_for_data (-2600) 1000), (INFO, Retrieved_new_items 4),
            (INFO, Sample_timestamps [Str ''N/A'', Str ''N/A'', Str ''N/A'']),
            (INFO, Added_items 4 4),
            (INFO, Generated_CSV 4 (Some ''20250101_10'')),
            (ERROR, Error_searching_for_existing_file ''locness_data_20250101_10.csv'' OtherException),
            (ERROR, Error_uploading_updating ''locness_data_20250101_10.csv'' OtherException)])"
proof -
  let ?rows = "[[(''id'', Num ''1'')], [(''id'', Num ''2'')], [(''id'', Num ''3'')], [(''id'', Num ''4'')]]"
  let ?c = "''id\<newline>1\<newline>2\<newline>3\<newline>4\<newline>''"
  have fetch: "get_new_data three_pages 1000 1000 (db_reader a_ex) =
      Some (Inr ?rows, \<lparr>last_read_timestamp = Some 1000\<rparr>,
           [(INFO, Searching_for_data (-2600) 1000), (INFO, Retrieved_new_items 4),
            (INFO, Sample_timestamps [Str ''N/A'', Str ''N/A'', Str ''N/A''])],
           [\<lparr>last_ts = -2600, current_ts = 1000, ExclusiveStartKey = None\<rparr>,
            \<lparr>last_ts = -2600, current_ts = 1000, ExclusiveStartKey = Some 1\<rparr>,
            \<lparr>last_ts = -2600, current_ts = 1000, ExclusiveStartKey = Some 2\<rparr>])"
    by (simp add: fetch_three_pages a_ex_def window_start_def)
  have r: "pandas_to_csv (current_hour_data (fst (add_data ''20250101_10'' ?rows (csv_writer a_ex)))) = Inr ?c"
    unfolding add_four using render_four by simp
  have u: "upload_or_update_csv ?c
      (get_current_filename ''20250101_10'' (fst (add_data ''20250101_10'' ?rows (csv_writer a_ex))))
      (drive_uploader a_ex) d_down =
     (None, u_ex,
      d_down\<lparr>journal := [Files_list ''locness_data_20250101_10.csv'' (Some ''folder'') None,
                           Files_create ''locness_data_20250101_10.csv'' [''folder''] ?c False]\<rparr>,
      [(ERROR, Error_searching_for_existing_file ''locness_data_20250101_10.csv'' OtherException),
       (ERROR, Error_uploading_updating ''locness_data_20250101_10.csv'' OtherException)])"
    unfolding add_four filename_four by (rule upload_down)
  have lg: "snd (add_data ''20250101_10'' ?rows (csv_writer a_ex)) = [(INFO, Added_items 4 4)]"
    by (simp add: add_data_def a_ex_def w_new_def)
  have "?rows \<noteq> []" "?c \<noteq> []" by simp_all
  from tick_with_rows [where to_csv = pandas_to_csv, OF fetch this(1) r this(2) u]
  show ?thesis
    unfolding failed_tick_def add_four lg by simp
qed

lemma idle_tick_value:
  "idle_tick =
     Some (None,
           a_ex\<lparr>db_reader := \<lparr>last_read_timestamp = Some 1060\<rparr>,
                csv_writer := w_new\<lparr>current_hour := Some ''20250101_10'',
                  current_hour_data := [[(''id'', Num ''1'')], [(''id'', Num ''2'')],
                                        [(''id'', Num ''3'')], [(''id'', Num ''4'')]]\<rparr>,
                drive_uploader := u_ex\<rparr>,
           d_down\<lparr>journal := [Files_list ''locness_data_20250101_10.csv'' (Some ''folder'') None,
                                Files_create ''locness_data_20250101_10.csv'' [''folder'']
                                  ''id\<newline>1\<newline>2\<newline>3\<newline>4\<newline>'' False]\<rparr>,
           [(INFO, Reading_new_data),
            (INFO, Searching_for_data 1000 1060), (INFO, Retrieved_new_items 0),
            (INFO, No_new_data_found)])"
proof -
  let ?rows = "[[(''id'', Num ''1'')], [(''id'', Num ''2'')], [(''id'', Num ''3'')], [(''id'', Num ''4'')]]"
  let ?a1 = "a_ex\<lparr>db_reader := \<lparr>last_read_timestamp = Some 1000\<rparr>,
                    csv_writer := w_new\<lparr>current_hour := Some ''20250101_10'', current_hour_data := ?rows\<rparr>,
                    drive_uploader := u_ex\<rparr>"
  have q: "get_new_data quiet_table 1060 1060 (db_reader ?a1) =
     Some (Inr [], \<lparr>last_read_timestamp = Some 1060\<rparr>,
           [(INFO, Searching_for_data 1000 1060), (INFO, Retrieved_new_items 0)],
           [\<lparr>last_ts = 1000, current_ts = 1060, ExclusiveStartKey = None\<rparr>])"
    by (simp add: fetch_quiet window_start_def)
  show ?thesis
    unfolding idle_tick_def failed_tick_value
    by (simp add: tick_without_rows [OF q])
qed

text \<open>
  After a tick whose upload failed, a tick that fetches nothing leaves the store as it
  is: it sends no request, although the bucket still holds the rows that were never
  stored.
\<close>

theorem idle_tick_does_not_retry_counterexample:
  "fst (the failed_tick) = None
   \<and> objects (fst (snd (snd (the failed_tick)))) = []
   \<and> journal (fst (snd (snd (the failed_tick))))
       = [Files_list ''locness_data_20250101_10.csv'' (Some ''folder'') None,
          Files_create ''locness_data_20250101_10.csv'' [''folder'']
            ''id\<newline>1\<newline>2\<newline>3\<newline>4\<newline>'' False]
   \<and> idle_tick \<noteq> None
   \<and> fst (the idle_tick) = None
   \<and> objects (fst (snd (snd (the idle_tick)))) = []
   \<and> journal (fst (snd (snd (the idle_tick)))) = journal (fst (snd (snd (the failed_tick))))
   \<and> current_hour_data (csv_writer (fst (snd (the idle_tick))))
       = [[(''id'', Num ''1'')], [(''id'', Num ''2'')], [(''id'', Num ''3'')], [(''id'', Num ''4'')]]"
  unfolding idle_tick_value failed_tick_value by (simp add: d_down_def)

section \<open>Errors of the row source\<close>

lemma get_new_data_fails:
  assumes "tbl \<lparr>last_ts = window_start now0 r, current_ts = now1, ExclusiveStartKey = None\<rparr> = Inl e
         \<or> (tbl \<lparr>last_ts = window_start now0 r, current_ts = now1, ExclusiveStartKey = None\<rparr> = Inr p
            \<and> breaks tbl (window_start now0 r) now1 p ps e)"
  shows "\<exists>sent. get_new_data tbl now0 now1 r =
           Some (scan_failed e (r\<lparr>last_read_timestamp := Some (window_start now0 r)\<rparr>)
                   [(INFO, Searching_for_data (window_start now0 r) now1)] sent)"
  using assms
proof
  assume "tbl \<lparr>last_ts = window_start now0 r, current_ts = now1, ExclusiveStartKey = None\<rparr> = Inl e"
  from get_new_data_first_fails [of tbl now0 r now1, OF this] show ?thesis by blast
next
  assume "tbl \<lparr>last_ts = window_start now0 r, current_ts = now1, ExclusiveStartKey = None\<rparr> = Inr p
            \<and> breaks tbl (window_start now0 r) now1 p ps e"
  then have "get_new_data tbl now0 now1 r =
     Some (scan_failed e (r\<lparr>last_read_timestamp := Some (window_start now0 r)\<rparr>)
             [(INFO, Searching_for_data (window_start now0 r) now1)]
             (requests_for (window_start now0 r) now1 (p # ps)))"
    by (intro get_new_data_breaks) simp_all
  then show ?thesis by blast
qed

lemma tick_raises:
  assumes "get_new_data tbl n0 n1 (db_reader a) = Some (Inl e, r', lgr, sent)"
  shows "read_and_write_data tbl n0 n1 h hn to_csv a d =
     Some (Some e, a\<lparr>db_reader := r'\<rparr>, d, (INFO, Reading_new_data) # lgr)"
  by (simp add: read_and_write_data_def assms)

text \<open>
  C3, as the code has it. A scan raises, at the first page or after any number of pages.
  When the exception is of one of the two botocore classes, the fetch returns the
  empty list (the rows of the pages already read are dropped), it logs the error, and
  the tick returns without raising and without a call to the store. When it is of
  another class, the handler does not catch it: nothing is logged and the exception
  leaves the fetch and the tick. In both cases the stored watermark is the lower bound
  that this fetch worked with: the value stored before the call, when there was one,
  and an hour before the first clock reading on a first call, where it was unset. The
  next fetch sends that same lower bound.
\<close>

theorem fetch_error_keeps_watermark:
  assumes fails:
      "tbl \<lparr>last_ts = window_start now0 r, current_ts = now1, ExclusiveStartKey = None\<rparr> = Inl e
         \<or> (tbl \<lparr>last_ts = window_start now0 r, current_ts = now1, ExclusiveStartKey = None\<rparr> = Inr p
            \<and> breaks tbl (window_start now0 r) now1 p ps e)"
    and reader: "db_reader a = r"
  shows "(boto_error e \<longrightarrow>
            (\<exists>sent. get_new_data tbl now0 now1 r =
               Some (Inr [], r\<lparr>last_read_timestamp := Some (window_start now0 r)\<rparr>,
                     [(INFO, Searching_for_data (window_start now0 r) now1),
                      (ERROR, Error_reading_from_DynamoDB e)],
                     sent))
          \<and> read_and_write_data tbl now0 now1 h hn to_csv a d =
               Some (None, a\<lparr>db_reader := r\<lparr>last_read_timestamp := Some (window_start now0 r)\<rparr>\<rparr>, d,
                     [(INFO, Reading_new_data),
                      (INFO, Searching_for_data (window_start now0 r) now1),
                      (ERROR, Error_reading_from_DynamoDB e),
                      (INFO, No_new_data_found)]))
       \<and> (\<not> boto_error e \<longrightarrow>
            (\<exists>sent. get_new_data tbl now0 now1 r =
               Some (Inl e, r\<lparr>last_read_timestamp := Some (window_start now0 r)\<rparr>,
                     [(INFO, Searching_for_data (window_start now0 r) now1)],
                     sent))
          \<and> read_and_write_data tbl now0 now1 h hn to_csv a d =
               Some (Some e, a\<lparr>db_reader := r\<lparr>last_read_timestamp := Some (window_start now0 r)\<rparr>\<rparr>, d,
                     [(INFO, Reading_new_data),
                      (INFO, Searching_for_data (window_start now0 r) now1)]))
       \<and> (\<forall>t. last_read_timestamp r = Some t \<longrightarrow>
              r\<lparr>last_read_timestamp := Some (window_start now0 r)\<rparr> = r)
       \<and> (last_read_timestamp r = None \<longrightarrow>
              last_read_timestamp (r\<lparr>last_read_timestamp := Some (window_start now0 r)\<rparr>)
                = Some (now0 - 3600))
       \<and> (\<forall>tbl' n0 n1 res r' lg sent.
              get_new_data tbl' n0 n1 (r\<lparr>last_read_timestamp := Some (window_start now0 r)\<rparr>)
                = Some (res, r', lg, sent)
              \<longrightarrow> (\<forall>q\<in>set sent. last_ts q = window_start now0 r))"
proof (intro conjI allI impI)
  from get_new_data_fails [OF fails] obtain sent where
    g: "get_new_data tbl now0 now1 r =
           Some (scan_failed e (r\<lparr>last_read_timestamp := Some (window_start now0 r)\<rparr>)
                   [(INFO, Searching_for_data (window_start now0 r) now1)] sent)"
    by blast
  {
    assume b: "boto_error e"
    with g have g': "get_new_data tbl now0 now1 (db_reader a) =
               Some (Inr [], r\<lparr>last_read_timestamp := Some (window_start now0 r)\<rparr>,
                     [(INFO, Searching_for_data (window_start now0 r) now1),
                      (ERROR, Error_reading_from_DynamoDB e)],
                     sent)"
      by (simp add: scan_failed_def reader)
    then show "\<exists>sent. get_new_data tbl now0 now1 r =
               Some (Inr [], r\<lparr>last_read_timestamp := Some (window_start now0 r)\<rparr>,
                     [(INFO, Searching_for_data (window_start now0 r) now1),
                      (ERROR, Error_reading_from_DynamoDB e)],
                     sent)"
      unfolding reader by blast
    from tick_without_rows [OF g', of h hn to_csv d]
    show "read_and_write_data tbl now0 now1 h hn to_csv a d =
               Some (None, a\<lparr>db_reader := r\<lparr>last_read_timestamp := Some (window_start now0 r)\<rparr>\<rparr>, d,
                     [(INFO, Reading_new_data),
                      (INFO, Searching_for_data (window_start now0 r) now1),
                      (ERROR, Error_reading_from_DynamoDB e),
                      (INFO, No_new_data_found)])"
      by simp
  }
  {
    assume b: "\<not> boto_error e"
    with g have g': "get_new_data tbl now0 now1 (db_reader a) =
               Some (Inl e, r\<lparr>last_read_timestamp := Some (window_start now0 r)\<rparr>,
                     [(INFO, Searching_for_data (window_start now0 r) now1)],
                     sent)"
      by (simp add: scan_failed_def reader)
    then show "\<exists>sent. get_new_data tbl now0 now1 r =
               Some (Inl e, r\<lparr>last_read_timestamp := Some (window_start now0 r)\<rparr>,
                     [(INFO, Searching_for_data (window_start now0 r) now1)],
                     sent)"
      unfolding reader by blast
    from tick_raises [OF g', of h hn to_csv d]
    show "read_and_write_data tbl now0 now1 h hn to_csv a d =
               Some (Some e, a\<lparr>db_reader := r\<lparr>last_read_timestamp := Some (window_start now0 r)\<rparr>\<rparr>, d,
                     [(INFO, Reading_new_data),
                      (INFO, Searching_for_data (window_start now0 r) now1)])"
      by simp
  }
  {
    fix t assume "last_read_timestamp r = Some t"
    then show "r\<lparr>last_read_timestamp := Some (window_start now0 r)\<rparr> = r"
      by (simp add: window_start_def)
  }
  {
    assume "last_read_timestamp r = None"
    then show "last_read_timestamp (r\<lparr>last_read_timestamp := Some (window_start now0 r)\<rparr>)
                = Some (now0 - 3600)"
      by (simp add: window_start_def)
  }
  {
    fix tbl' n0 n1 res r' lg sent
    assume "get_new_data tbl' n0 n1 (r\<lparr>last_read_timestamp := Some (window_start now0 r)\<rparr>)
                = Some (res, r', lg, sent)"
    from get_new_data_bounds [OF this]
    show "\<forall>q\<in>set sent. last_ts q = window_start now0 r"
      by (simp add: window_start_def)
  }
qed

text \<open>
  Three failing fetches: a botocore error after two pages with a watermark stored, the
  same on a first call, and an exception of another class on a first call.
\<close>

theorem fetch_error_keeps_watermark_witness:
  "boto_error ClientError
   \<and> (\<exists>sent. get_new_data failing_table 0 1060 \<lparr>last_read_timestamp = Some 1000\<rparr> =
            Some (Inr [], \<lparr>last_read_timestamp = Some 1000\<rparr>,
                  [(INFO, Searching_for_data 1000 1060),
                   (ERROR, Error_reading_from_DynamoDB ClientError)],
                  sent))
   \<and> map last_ts (snd (snd (snd (the (get_new_data three_pages 0 1120 \<lparr>last_read_timestamp = Some 1000\<rparr>)))))
       = [1000, 1000, 1000]
   \<and> (\<exists>sent. get_new_data failing_table 1000 1000 \<lparr>last_read_timestamp = None\<rparr> =
            Some (Inr [], \<lparr>last_read_timestamp = Some (-2600)\<rparr>,
                  [(INFO, Searching_for_data (-2600) 1000),
                   (ERROR, Error_reading_from_DynamoDB ClientError)],
                  sent))
   \<and> read_and_write_data failing_table 1000 1000 ''20250101_10'' ''20250101_10'' pandas_to_csv a_ex d_empty
       = Some (None, a_ex\<lparr>db_reader := \<lparr>last_read_timestamp = Some (-2600)\<rparr>\<rparr>, d_empty,
               [(INFO, Reading_new_data), (INFO, Searching_for_data (-2600) 1000),
                (ERROR, Error_reading_from_DynamoDB ClientError), (INFO, No_new_data_found)])
   \<and> (\<exists>sent. get_new_data broken_table 1000 1000 \<lparr>last_read_timestamp = None\<rparr> =
            Some (Inl OtherException, \<lparr>last_read_timestamp = Some (-2600)\<rparr>,
                  [(INFO, Searching_for_data (-2600) 1000)], sent))
   \<and> read_and_write_data broken_table 1000 1000 ''20250101_10'' ''20250101_10'' pandas_to_csv a_ex d_empty
       = Some (Some OtherException, a_ex\<lparr>db_reader := \<lparr>last_read_timestamp = Some (-2600)\<rparr>\<rparr>, d_empty,
               [(INFO, Reading_new_data), (INFO, Searching_for_data (-2600) 1000)])"
proof -
  let ?p = "\<lparr>Items = Some [[(''id'', Num ''1'')]], LastEvaluatedKey = Some 1\<rparr>"
  let ?ps = "[\<lparr>Items = Some [[(''id'', Num ''2'')]], LastEvaluatedKey = Some 2\<rparr>]"
  let ?old = "\<lparr>last_read_timestamp = Some 1000\<rparr>"
  let ?new = "\<lparr>last_read_timestamp = None\<rparr>"
  have e: "boto_error ClientError" and ne: "\<not> boto_error OtherException" by simp_all
  have w: "window_start 0 ?old = 1000" and w': "window_start 1000 ?new = -2600"
    by (simp_all add: window_start_def)
  have f: "failing_table \<lparr>last_ts = window_start 0 ?old, current_ts = 1060, ExclusiveStartKey = None\<rparr> = Inl ClientError
         \<or> (failing_table \<lparr>last_ts = window_start 0 ?old, current_ts = 1060, ExclusiveStartKey = None\<rparr> = Inr ?p
            \<and> breaks failing_table (window_start 0 ?old) 1060 ?p ?ps ClientError)"
    by (simp add: failing_table_def)
  have f': "failing_table \<lparr>last_ts = window_start 1000 ?new, current_ts = 1000, ExclusiveStartKey = None\<rparr> = Inl ClientError
         \<or> (failing_table \<lparr>last_ts = window_start 1000 ?new, current_ts = 1000, ExclusiveStartKey = None\<rparr> = Inr ?p
            \<and> breaks failing_table (window_start 1000 ?new) 1000 ?p ?ps ClientError)"
    by (simp add: failing_table_def)
  have b: "broken_table \<lparr>last_ts = window_start 1000 ?new, current_ts = 1000, ExclusiveStartKey = None\<rparr> = Inl OtherException
         \<or> (broken_table \<lparr>last_ts = window_start 1000 ?new, current_ts = 1000, ExclusiveStartKey = None\<rparr> = Inr ?p
            \<and> breaks broken_table (window_start 1000 ?new) 1000 ?p ?ps OtherException)"
    by (simp add: broken_table_def)
  have r0: "db_reader (a_ex\<lparr>db_reader := ?old\<rparr>) = ?old" by simp
  have r1: "db_reader a_ex = ?new" by (simp add: a_ex_def)
  note t = fetch_error_keeps_watermark [where to_csv = pandas_to_csv, OF f r0]
  note t' = fetch_error_keeps_watermark [where to_csv = pandas_to_csv and d = d_empty
      and h = "''20250101_10''" and hn = "''20250101_10''", OF f' r1]
  note t'' = fetch_error_keeps_watermark [where to_csv = pandas_to_csv and d = d_empty
      and h = "''20250101_10''" and hn = "''20250101_10''", OF b r1]
  let ?sent = "[\<lparr>last_ts = 1000, current_ts = 1120, ExclusiveStartKey = None\<rparr>,
            \<lparr>last_ts = 1000, current_ts = 1120, ExclusiveStartKey = Some 1\<rparr>,
            \<lparr>last_ts = 1000, current_ts = 1120, ExclusiveStartKey = Some 2\<rparr>]"
  have next_fetch: "get_new_data three_pages 0 1120 ?old
      = Some (Inr [[(''id'', Num ''1'')], [(''id'', Num ''2'')], [(''id'', Num ''3'')], [(''id'', Num ''4'')]],
           \<lparr>last_read_timestamp = Some 1120\<rparr>,
           [(INFO, Searching_for_data 1000 1120), (INFO, Retrieved_new_items 4),
            (INFO, Sample_timestamps [Str ''N/A'', Str ''N/A'', Str ''N/A''])],
           ?sent)"
    by (simp add: fetch_three_pages w)
  from t have third: "\<And>tbl' n0 n1 res r' lg sent.
      get_new_data tbl' n0 n1 ?old = Some (res, r', lg, sent)
      \<Longrightarrow> \<forall>q\<in>set sent. last_ts q = 1000"
    by (simp add: w)
  from t e have p1: "\<exists>sent. get_new_data failing_table 0 1060 ?old =
            Some (Inr [], ?old,
                  [(INFO, Searching_for_data 1000 1060),
                   (ERROR, Error_reading_from_DynamoDB ClientError)],
                  sent)"
    by (simp add: w)
  from third [OF next_fetch]
  have p2: "map last_ts (snd (snd (snd (the (get_new_data three_pages 0 1120 ?old))))) = [1000, 1000, 1000]"
    unfolding next_fetch by simp
  from t' e have p3: "\<exists>sent. get_new_data failing_table 1000 1000 ?new =
            Some (Inr [], \<lparr>last_read_timestamp = Some (-2600)\<rparr>,
                  [(INFO, Searching_for_data (-2600) 1000),
                   (ERROR, Error_reading_from_DynamoDB ClientError)],
                  sent)"
    by (simp add: w')
  from t' e have p4: "read_and_write_data failing_table 1000 1000 ''20250101_10'' ''20250101_10''
        pandas_to_csv a_ex d_empty
       = Some (None, a_ex\<lparr>db_reader := \<lparr>last_read_timestamp = Some (-2600)\<rparr>\<rparr>, d_empty,
               [(INFO, Reading_new_data), (INFO, Searching_for_data (-2600) 1000),
                (ERROR, Error_reading_from_DynamoDB ClientError), (INFO, No_new_data_found)])"
    by (simp add: w')
  from t'' ne have p5: "\<exists>sent. get_new_data broken_table 1000 1000 ?new =
            Some (Inl OtherException, \<lparr>last_read_timestamp = Some (-2600)\<rparr>,
                  [(INFO, Searching_for_data (-2600) 1000)], sent)"
    by (simp add: w')
  from t'' ne have p6: "read_and_write_data broken_table 1000 1000 ''20250101_10'' ''20250101_10''
        pandas_to_csv a_ex d_empty
       = Some (Some OtherException, a_ex\<lparr>db_reader := \<lparr>last_read_timestamp = Some (-2600)\<rparr>\<rparr>, d_empty,
               [(INFO, Reading_new_data), (INFO, Searching_for_data (-2600) 1000)])"
    by (simp add: w')
  from e p1 p2 p3 p4 p5 p6 show ?thesis by blast
qed

text \<open>
  An exception that is not one of botocore's leaves the fetch and the tick, with no
  line in the log for it. And on a first call that fails, the stored watermark is no
  longer what it was before the call, unset, but an hour before the clock reading.
\<close>

theorem other_exception_is_raised_counterexample:
  "get_new_data broken_table 1000 1000 \<lparr>last_read_timestamp = None\<rparr>
     = Some (Inl OtherException, \<lparr>last_read_timestamp = Some (-2600)\<rparr>,
             [(INFO, Searching_for_data (-2600) 1000)],
             [\<lparr>last_ts = -2600, current_ts = 1000, ExclusiveStartKey = None\<rparr>])
   \<and> read_and_write_data broken_table 1000 1000 ''20250101_10'' ''20250101_10'' pandas_to_csv a_ex d_empty
     = Some (Some OtherException, a_ex\<lparr>db_reader := \<lparr>last_read_timestamp = Some (-2600)\<rparr>\<rparr>, d_empty,
             [(INFO, Reading_new_data), (INFO, Searching_for_data (-2600) 1000)])
   \<and> last_read_timestamp (fst (snd (the (get_new_data failing_table 1000 1000 \<lparr>last_read_timestamp = None\<rparr>))))
     = Some (-2600)"
proof -
  have w: "window_start 1000 \<lparr>last_read_timestamp = None\<rparr> = -2600"
    by (simp add: window_start_def)
  have b: "broken_table \<lparr>last_ts = window_start 1000 \<lparr>last_read_timestamp = None\<rparr>, current_ts = 1000,
             ExclusiveStartKey = None\<rparr> = Inl OtherException"
    by (simp add: broken_table_def)
  have g: "get_new_data broken_table 1000 1000 \<lparr>last_read_timestamp = None\<rparr>
     = Some (Inl OtherException, \<lparr>last_read_timestamp = Some (-2600)\<rparr>,
             [(INFO, Searching_for_data (-2600) 1000)],
             [\<lparr>last_ts = -2600, current_ts = 1000, ExclusiveStartKey = None\<rparr>])"
    using get_new_data_first_fails [of broken_table 1000 "\<lparr>last_read_timestamp = None\<rparr>" 1000, OF b]
    by (simp add: scan_failed_def w)
  have g': "get_new_data broken_table 1000 1000 (db_reader a_ex)
     = Some (Inl OtherException, \<lparr>last_read_timestamp = Some (-2600)\<rparr>,
             [(INFO, Searching_for_data (-2600) 1000)],
             [\<lparr>last_ts = -2600, current_ts = 1000, ExclusiveStartKey = None\<rparr>])"
    using g by (simp add: a_ex_def)
  have t: "read_and_write_data broken_table 1000 1000 ''20250101_10'' ''20250101_10'' pandas_to_csv a_ex d_empty
     = Some (Some OtherException, a_ex\<lparr>db_reader := \<lparr>last_read_timestamp = Some (-2600)\<rparr>\<rparr>, d_empty,
             [(INFO, Reading_new_data), (INFO, Searching_for_data (-2600) 1000)])"
    using tick_raises [OF g', of "''20250101_10''" "''20250101_10''" pandas_to_csv d_empty] by simp
  have f: "last_read_timestamp (fst (snd (the (get_new_data failing_table 1000 1000 \<lparr>last_read_timestamp = None\<rparr>))))
     = Some (-2600)"
    by (simp add: fetch_failing w)
  from g t f show ?thesis by blast
qed

end
